theory Spec2Isabelle
  imports Main "HOL-Library.Word"
begin

unbundle bit_operations_syntax

section \<open>Bytes, slices and little-endian integers\<close>

text \<open>
  A Go byte is an 8-bit word, a \<open>[]uint8\<close> or \<open>string\<close> buffer is a list of bytes.
  Offsets, lengths and the \<open>uint16\<close>/\<open>uint32\<close>/\<open>uint64\<close> values read from a buffer are
  natural numbers; where Go's fixed-width arithmetic can wrap, the conversion
  \<open>uint32\<close> (reduction modulo \<open>2 ^ 32\<close>) is written out.

  Go has two ways to fail. A function returns an \<open>error\<close> value (every decode error of
  the binary format is \<open>errTODO()\<close>), or the run-time panics (a slice or an index out
  of range, an explicit \<open>panic\<close>). The first is a value of type \<open>error option\<close>
  (\<open>None\<close> is Go's \<open>nil\<close>), the second is the outcome \<open>Panics\<close>.
\<close>

type_synonym byte = "8 word"
type_synonym bytes = "byte list"

datatype error = errTODO

datatype 'a outcome = Returns 'a | Panics

definition uint32 :: "nat \<Rightarrow> nat" where
  "uint32 x = x mod 4294967296"

definition MaxMessageSize :: nat where
  "MaxMessageSize = 0x7FF00000"

text \<open>\<open>buf[lo:hi]\<close>: panics unless \<open>lo \<le> hi \<le> len(buf)\<close>.\<close>

definition slice :: "'a list \<Rightarrow> nat \<Rightarrow> nat \<Rightarrow> 'a list outcome" where
  "slice buf lo hi =
     (if lo \<le> hi \<and> hi \<le> length buf then Returns (take (hi - lo) (drop lo buf))
      else Panics)"

text \<open>\<open>buf[i]\<close>: panics unless \<open>i < len(buf)\<close>.\<close>

definition index :: "'a list \<Rightarrow> nat \<Rightarrow> 'a outcome" where
  "index buf i = (if i < length buf then Returns (buf ! i) else Panics)"

text \<open>
  \<open>binary.LittleEndian.Uint16/Uint32/Uint64\<close>. Every call in the source passes a
  slice of exactly the width read, cut out of a buffer by \<open>slice\<close> or out of an
  8-byte thunk.
\<close>

fun le_nat :: "bytes \<Rightarrow> nat" where
  "le_nat [] = 0"
| "le_nat (b # bs) = unat b + 256 * le_nat bs"

definition leUint16 :: "bytes \<Rightarrow> nat" where
  "leUint16 b = le_nat (take 2 b)"

definition leUint32 :: "bytes \<Rightarrow> nat" where
  "leUint32 b = le_nat (take 4 b)"

definition leUint64 :: "bytes \<Rightarrow> nat" where
  "leUint64 b = le_nat (take 8 b)"

text \<open>\<open>binary.LittleEndian.PutUint32(tmp, v)\<close> on a fresh 4-byte slice, and its
  16- and 64-bit siblings.\<close>

definition putUint16 :: "nat \<Rightarrow> bytes" where
  "putUint16 v = [word_of_nat (v mod 256), word_of_nat (v div 256 mod 256)]"

definition putUint32 :: "nat \<Rightarrow> bytes" where
  "putUint32 v = [word_of_nat (v mod 256), word_of_nat (v div 256 mod 256),
                  word_of_nat (v div 65536 mod 256), word_of_nat (v div 16777216 mod 256)]"

definition putUint64 :: "nat \<Rightarrow> bytes" where
  "putUint64 v = putUint32 v @ putUint32 (v div 4294967296)"

text \<open>Writing through a sub-slice of \<open>buf\<close> that starts at \<open>off\<close>: the bytes of
  \<open>buf\<close> itself change.\<close>

fun write_at :: "bytes \<Rightarrow> nat \<Rightarrow> bytes \<Rightarrow> bytes" where
  "write_at buf off [] = buf"
| "write_at buf off (b # bs) = write_at (buf[off := b]) (Suc off) bs"

section \<open>Package idol: message validation with offset caching\<close>

text \<open>
  \<open>decodeThunks(buf, messageSize)\<close> walks the thunk table. For an indirect thunk it
  reads the tail padding, then overwrites bytes 0..4 of the thunk in \<open>buf\<close> with the
  data offset, then advances and checks the offset. The caller's buffer is the same
  memory, so the function returns the buffer as it leaves it together with the error.
\<close>

function decodeThunks_loop ::
  "nat \<Rightarrow> nat \<Rightarrow> nat \<Rightarrow> nat \<Rightarrow> bytes \<Rightarrow> (bytes \<times> error option) outcome" where
  "decodeThunks_loop messageSize thunkCount tag valueOff buf =
     (if tag \<le> thunkCount then
        (case slice buf (tag * 8) (tag * 8 + 8) of
           Panics \<Rightarrow> Panics
         | Returns thunk \<Rightarrow>
            (let flags = leUint16 (take 2 (drop 2 thunk)) in
             if flags AND 0x8000 = 0x0000 then
               (if leUint64 thunk = 0
                then decodeThunks_loop messageSize thunkCount (tag + 1) valueOff buf
                else Returns (buf, Some errTODO))
             else if flags AND 0x3FFF \<noteq> 0x0000 then Returns (buf, Some errTODO)
             else if flags AND 0x4000 = 0x4000 then
               (let valueSize = leUint32 (drop 4 thunk);
                    paddedSize = (valueSize + 7) AND 0xFFFFFFF8
                in case (if paddedSize > valueSize
                         then (case slice buf (valueOff + valueSize) (valueOff + paddedSize) of
                                 Panics \<Rightarrow> Panics
                               | Returns padding \<Rightarrow> Returns (list_all (\<lambda>pad. pad = 0x00) padding))
                         else Returns True) of
                     Panics \<Rightarrow> Panics
                   | Returns False \<Rightarrow> Returns (buf, Some errTODO)
                   | Returns True \<Rightarrow>
                      (let thunkOffset = drop_bit 3 (uint32 valueOff) OR uint32 (push_bit 16 flags);
                           buf' = write_at buf (tag * 8) (putUint32 thunkOffset);
                           valueOff' = valueOff + paddedSize
                       in if valueOff' > messageSize then Returns (buf', Some errTODO)
                          else decodeThunks_loop messageSize thunkCount (tag + 1) valueOff' buf'))
             else
               (let handles = leUint16 (take 2 thunk) in
                if handles > 0 then
                  (if handles \<noteq> 1 then Returns (buf, Some errTODO)
                   else if leUint32 (drop 4 thunk) \<noteq> 0xFFFFFFFF then Returns (buf, Some errTODO)
                   else Panics)
                else decodeThunks_loop messageSize thunkCount (tag + 1) valueOff buf)))
      else if valueOff \<noteq> messageSize then Returns (buf, Some errTODO)
      else Returns (buf, None))"
  by pat_completeness auto
termination
  by (relation "measure (\<lambda>(messageSize, thunkCount, tag, valueOff, buf). thunkCount + 1 - tag)") auto

declare decodeThunks_loop.simps [simp del]

definition decodeThunks :: "bytes \<Rightarrow> nat \<Rightarrow> (bytes \<times> error option) outcome" where
  "decodeThunks buf messageSize =
     (case slice buf 6 8 of
        Panics \<Rightarrow> Panics
      | Returns b \<Rightarrow>
         (let thunkCount = leUint16 b;
              dataOff = 8 + thunkCount * 8
          in if dataOff > messageSize then Returns (buf, Some errTODO)
             else decodeThunks_loop messageSize thunkCount 1 dataOff buf))"

text \<open>
  \<open>MessageDecoder\<close>: the decoder holds the buffer and the first error. A decoder
  built for a rejected buffer holds no buffer. \<open>NewMessageDecoder\<close> returns the decoder
  and, beside it, the caller's buffer as the call leaves it.
\<close>

record MessageDecoder =
  buf :: bytes
  err :: "error option"

definition NewMessageDecoder :: "bytes \<Rightarrow> (MessageDecoder \<times> bytes) outcome" where
  "NewMessageDecoder b =
     (if length b > 4294967295 then Returns (\<lparr>buf = [], err = Some errTODO\<rparr>, b)
      else let bufLen = length b in
        if bufLen < 8 then Returns (\<lparr>buf = [], err = Some errTODO\<rparr>, b)
        else if bufLen mod 8 \<noteq> 0 then Returns (\<lparr>buf = [], err = Some errTODO\<rparr>, b)
        else if bufLen > MaxMessageSize then Returns (\<lparr>buf = [], err = Some errTODO\<rparr>, b)
        else case slice b 0 4 of
          Panics \<Rightarrow> Panics
        | Returns s \<Rightarrow>
           (let messageSize = leUint32 s in
            if messageSize \<noteq> bufLen then Returns (\<lparr>buf = [], err = Some errTODO\<rparr>, b)
            else case slice b 4 6 of
              Panics \<Rightarrow> Panics
            | Returns f \<Rightarrow>
               (if leUint16 f \<noteq> 0x0000 then Returns (\<lparr>buf = [], err = Some errTODO\<rparr>, b)
                else case decodeThunks b messageSize of
                  Panics \<Rightarrow> Panics
                | Returns (b', Some e) \<Rightarrow> Returns (\<lparr>buf = [], err = Some e\<rparr>, b')
                | Returns (b', None) \<Rightarrow> Returns (\<lparr>buf = b', err = None\<rparr>, b'))))"

definition Finish :: "MessageDecoder \<Rightarrow> error option" where
  "Finish d = err d"

text \<open>\<open>MessageDecoder.has\<close> and \<open>MessageDecoder.getIndirect\<close>; \<open>nil\<close> is the empty
  slice.\<close>

definition has :: "MessageDecoder \<Rightarrow> nat \<Rightarrow> bool outcome" where
  "has d tag =
     (if length (buf d) = 0 then Returns False
      else case slice (buf d) 6 8 of
        Panics \<Rightarrow> Panics
      | Returns b \<Rightarrow>
         (if tag > leUint16 b then Returns False
          else case index (buf d) (uint32 (uint32 (tag * 8) + 3)) of
            Panics \<Rightarrow> Panics
          | Returns x \<Rightarrow> Returns (x \<noteq> 0x00)))"

definition getIndirect :: "MessageDecoder \<Rightarrow> nat \<Rightarrow> bytes outcome" where
  "getIndirect d tag =
     (case has d tag of
        Panics \<Rightarrow> Panics
      | Returns False \<Rightarrow> Returns []
      | Returns True \<Rightarrow>
         (let thunkOff = uint32 (tag * 8) in
          case slice (buf d) (uint32 (thunkOff + 4)) (uint32 (thunkOff + 8)) of
            Panics \<Rightarrow> Panics
          | Returns s \<Rightarrow>
             (let valueSize = leUint32 s in
              if valueSize = 0 then Returns []
              else case slice (buf d) thunkOff (uint32 (thunkOff + 4)) of
                Panics \<Rightarrow> Panics
              | Returns o4 \<Rightarrow>
                 (let valueOff = uint32 (push_bit 3 (leUint32 o4 AND 0x0FFFFFFF))
                  in slice (buf d) valueOff (uint32 (valueOff + valueSize))))))"

text \<open>
  \<open>MessageDecoder.Message(tag, decode)\<close> and \<open>MessageDecoder.MessageArray(tag, decode)\<close>.
  The callback \<open>decode\<close> is the element type's generated decoder; it returns an error
  or \<open>nil\<close>, or panics.
\<close>

definition Message :: "MessageDecoder \<Rightarrow> nat \<Rightarrow> (bytes \<Rightarrow> error option outcome)
    \<Rightarrow> MessageDecoder outcome" where
  "Message d tag decode =
     (if err d \<noteq> None then Returns d
      else case getIndirect d tag of
        Panics \<Rightarrow> Panics
      | Returns b \<Rightarrow>
         (if length b = 0 then Returns d
          else case decode b of
            Panics \<Rightarrow> Panics
          | Returns (Some e) \<Rightarrow> Returns (d\<lparr>err := Some e\<rparr>)
          | Returns None \<Rightarrow> Returns d))"

text \<open>The loop of \<open>MessageArray\<close> over an array payload \<open>b\<close>: \<open>n\<close> elements are left,
  the next size is at \<open>sizeOff\<close>, the next element at \<open>valueOff\<close>. An element of size
  0 is skipped.\<close>

fun MessageArray_loop :: "(bytes \<Rightarrow> error option outcome) \<Rightarrow> bytes \<Rightarrow> nat \<Rightarrow> nat \<Rightarrow> nat
    \<Rightarrow> error option outcome" where
  "MessageArray_loop decode b 0 sizeOff valueOff =
     (if valueOff \<noteq> length b then Returns (Some errTODO) else Returns None)"
| "MessageArray_loop decode b (Suc n) sizeOff valueOff =
     (case slice b sizeOff (sizeOff + 4) of
        Panics \<Rightarrow> Panics
      | Returns s \<Rightarrow>
         (let valueSize = leUint32 s in
          if valueSize = 0 then MessageArray_loop decode b n (sizeOff + 4) valueOff
          else if valueSize mod 8 \<noteq> 0 then Returns (Some errTODO)
          else let valueEnd = valueOff + valueSize in
            if valueEnd > length b then Returns (Some errTODO)
            else case slice b valueOff valueEnd of
              Panics \<Rightarrow> Panics
            | Returns v \<Rightarrow>
               (case decode v of
                  Panics \<Rightarrow> Panics
                | Returns (Some e) \<Rightarrow> Returns (Some e)
                | Returns None \<Rightarrow> MessageArray_loop decode b n (sizeOff + 4) valueEnd)))"

definition MessageArray_payload :: "(bytes \<Rightarrow> error option outcome) \<Rightarrow> bytes
    \<Rightarrow> error option outcome" where
  "MessageArray_payload decode b =
     (let bufLen = length b in
      if bufLen < 4 then Returns (Some errTODO)
      else case slice b 0 4 of
        Panics \<Rightarrow> Panics
      | Returns s \<Rightarrow>
         (let arrayLen = leUint32 s;
              valueOff = 4 + arrayLen * 4;
              valueOff = (if arrayLen AND 0x01 = 0x00 then valueOff + 4 else valueOff)
          in if valueOff > bufLen then Returns (Some errTODO)
             else MessageArray_loop decode b arrayLen 4 valueOff))"

definition MessageArray :: "MessageDecoder \<Rightarrow> nat \<Rightarrow> (bytes \<Rightarrow> error option outcome)
    \<Rightarrow> MessageDecoder outcome" where
  "MessageArray d tag decode =
     (if err d \<noteq> None then Returns d
      else case getIndirect d tag of
        Panics \<Rightarrow> Panics
      | Returns b \<Rightarrow>
         (if length b = 0 then Returns d
          else case MessageArray_payload decode b of
            Panics \<Rightarrow> Panics
          | Returns (Some e) \<Rightarrow> Returns (d\<lparr>err := Some e\<rparr>)
          | Returns None \<Rightarrow> Returns d))"

subsection \<open>DecodedMessage: field access through the cached offsets\<close>

text \<open>\<open>DecodedMessage\<close> wraps the buffer as an immutable string.\<close>

datatype DecodedMessage = DecodedMessage (msg_buf: bytes)

definition Size :: "DecodedMessage \<Rightarrow> nat outcome" where
  "Size msg =
     (if length (msg_buf msg) = 0 then Returns 8
      else case slice (msg_buf msg) 0 4 of
        Panics \<Rightarrow> Panics
      | Returns s \<Rightarrow> Returns (leUint32 s))"

definition Has :: "DecodedMessage \<Rightarrow> nat \<Rightarrow> bool outcome" where
  "Has msg tag =
     (if length (msg_buf msg) = 0 then Returns False
      else case slice (msg_buf msg) 6 8 of
        Panics \<Rightarrow> Panics
      | Returns b \<Rightarrow>
         (if tag > leUint16 b then Returns False
          else case index (msg_buf msg) (uint32 (uint32 (tag * 8) + 3)) of
            Panics \<Rightarrow> Panics
          | Returns x \<Rightarrow> Returns (x \<noteq> 0x00)))"

definition GetIndirect :: "DecodedMessage \<Rightarrow> nat \<Rightarrow> bytes outcome" where
  "GetIndirect msg tag =
     (case Has msg tag of
        Panics \<Rightarrow> Panics
      | Returns False \<Rightarrow> Returns []
      | Returns True \<Rightarrow>
         (let thunkOff = uint32 (tag * 8) in
          case slice (msg_buf msg) (uint32 (thunkOff + 4)) (uint32 (thunkOff + 8)) of
            Panics \<Rightarrow> Panics
          | Returns s \<Rightarrow>
             (let valueSize = leUint32 s in
              if valueSize = 0 then Returns []
              else case slice (msg_buf msg) thunkOff (uint32 (thunkOff + 4)) of
                Panics \<Rightarrow> Panics
              | Returns o4 \<Rightarrow>
                 (let valueOff = uint32 (push_bit 3 (leUint32 o4 AND 0x0FFFFFFF))
                  in slice (msg_buf msg) valueOff (uint32 (valueOff + valueSize))))))"

definition GetUint32 :: "DecodedMessage \<Rightarrow> nat \<Rightarrow> nat outcome" where
  "GetUint32 msg tag =
     (case Has msg tag of
        Panics \<Rightarrow> Panics
      | Returns False \<Rightarrow> Returns 0
      | Returns True \<Rightarrow>
         (let thunkOff = uint32 (tag * 8) in
          case slice (msg_buf msg) (uint32 (thunkOff + 4)) (uint32 (thunkOff + 8)) of
            Panics \<Rightarrow> Panics
          | Returns s \<Rightarrow> Returns (leUint32 s)))"

definition GetText :: "DecodedMessage \<Rightarrow> nat \<Rightarrow> bytes outcome" where
  "GetText msg tag =
     (case GetIndirect msg tag of
        Panics \<Rightarrow> Panics
      | Returns b \<Rightarrow> if length b > 0 then Returns (take (length b - 1) b) else Returns [])"

section \<open>Package idolbin: validation without caching\<close>

text \<open>
  \<open>validateEncodedThunks(buf, messageSize)\<close> is the sibling of \<open>decodeThunks\<close> on an
  immutable string: the same walk, no write, and a handle thunk with count 1 and value
  \<open>0xFFFFFFFF\<close> is accepted.
\<close>

function validateEncodedThunks_loop ::
  "nat \<Rightarrow> nat \<Rightarrow> nat \<Rightarrow> nat \<Rightarrow> bytes \<Rightarrow> error option outcome" where
  "validateEncodedThunks_loop messageSize thunkCount tag valueOff b =
     (if tag \<le> thunkCount then
        (case slice b (tag * 8) (tag * 8 + 8) of
           Panics \<Rightarrow> Panics
         | Returns thunk \<Rightarrow>
            (let flags = leUint16 (take 2 (drop 2 thunk)) in
             if flags AND 0x8000 = 0x0000 then
               (if leUint64 thunk = 0
                then validateEncodedThunks_loop messageSize thunkCount (tag + 1) valueOff b
                else Returns (Some errTODO))
             else if flags AND 0x3FFF \<noteq> 0x0000 then Returns (Some errTODO)
             else if flags AND 0x4000 = 0x4000 then
               (let valueSize = leUint32 (drop 4 thunk);
                    paddedSize = (valueSize + 7) AND 0xFFFFFFF8
                in case (if paddedSize > valueSize
                         then (case slice b (valueOff + valueSize) (valueOff + paddedSize) of
                                 Panics \<Rightarrow> Panics
                               | Returns padding \<Rightarrow> Returns (list_all (\<lambda>pad. pad = 0x00) padding))
                         else Returns True) of
                     Panics \<Rightarrow> Panics
                   | Returns False \<Rightarrow> Returns (Some errTODO)
                   | Returns True \<Rightarrow>
                      (let valueOff' = valueOff + paddedSize
                       in if valueOff' > messageSize then Returns (Some errTODO)
                          else validateEncodedThunks_loop messageSize thunkCount (tag + 1) valueOff' b))
             else
               (let handles = leUint16 (take 2 thunk) in
                if handles > 0 then
                  (if handles \<noteq> 1 then Returns (Some errTODO)
                   else if leUint32 (drop 4 thunk) \<noteq> 0xFFFFFFFF then Returns (Some errTODO)
                   else validateEncodedThunks_loop messageSize thunkCount (tag + 1) valueOff b)
                else validateEncodedThunks_loop messageSize thunkCount (tag + 1) valueOff b)))
      else if valueOff \<noteq> messageSize then Returns (Some errTODO)
      else Returns None)"
  by pat_completeness auto
termination
  by (relation "measure (\<lambda>(messageSize, thunkCount, tag, valueOff, b). thunkCount + 1 - tag)") auto

declare validateEncodedThunks_loop.simps [simp del]

definition validateEncodedThunks :: "bytes \<Rightarrow> nat \<Rightarrow> error option outcome" where
  "validateEncodedThunks b messageSize =
     (case slice b 6 8 of
        Panics \<Rightarrow> Panics
      | Returns c \<Rightarrow>
         (let thunkCount = leUint16 c;
              dataOff = 8 + thunkCount * 8
          in if dataOff > messageSize then Returns (Some errTODO)
             else validateEncodedThunks_loop messageSize thunkCount 1 dataOff b))"

text \<open>\<open>idolbin.NewMessage(buf)\<close> returns \<open>(Message{buf}, nil)\<close> or \<open>(Message{}, err)\<close>.\<close>

definition NewMessage :: "bytes \<Rightarrow> (bytes \<times> error option) outcome" where
  "NewMessage b =
     (if length b > 4294967295 then Returns ([], Some errTODO)
      else let bufLen = length b in
        if bufLen < 8 then Returns ([], Some errTODO)
        else if bufLen mod 8 \<noteq> 0 then Returns ([], Some errTODO)
        else if bufLen > MaxMessageSize then Returns ([], Some errTODO)
        else case slice b 0 4 of
          Panics \<Rightarrow> Panics
        | Returns s \<Rightarrow>
           (let messageSize = leUint32 s in
            if messageSize \<noteq> bufLen then Returns ([], Some errTODO)
            else case slice b 4 6 of
              Panics \<Rightarrow> Panics
            | Returns f \<Rightarrow>
               (if leUint16 f \<noteq> 0x0000 then Returns ([], Some errTODO)
                else case validateEncodedThunks b messageSize of
                  Panics \<Rightarrow> Panics
                | Returns (Some e) \<Rightarrow> Returns ([], Some e)
                | Returns None \<Rightarrow> Returns (b, None))))"

text \<open>
  \<open>Message.Field(tag)\<close> copies the 8 bytes of the thunk out of the buffer (an unchecked
  pointer read in the source, in range for every validated message; out of range it is
  a panic here). \<open>None\<close> is the \<open>nil\<close> field.
\<close>

record MessageField =
  field_buf :: bytes
  thunk :: bytes
  tag :: nat

definition Field :: "bytes \<Rightarrow> nat \<Rightarrow> MessageField option outcome" where
  "Field b t =
     (if length b = 0 \<or> t = 0 then Returns None
      else case slice b 6 8 of
        Panics \<Rightarrow> Panics
      | Returns c \<Rightarrow>
         (if t > leUint16 c then Returns None
          else case slice b (uint32 (t * 8)) (uint32 (t * 8) + 8) of
            Panics \<Rightarrow> Panics
          | Returns th \<Rightarrow> Returns (Some \<lparr>field_buf = b, thunk = th, tag = t\<rparr>)))"

text \<open>\<open>MessageField.getIndirect\<close> recomputes the data offset: it sums, in \<open>uint32\<close>
  arithmetic, the padded sizes of the indirect thunks before the field's tag.\<close>

function getIndirect_loop :: "bytes \<Rightarrow> nat \<Rightarrow> nat \<Rightarrow> nat \<Rightarrow> nat outcome" where
  "getIndirect_loop b t ii valueOff =
     (if ii < t then
        (case slice b (uint32 (ii * 8)) (uint32 (ii * 8 + 8)) of
           Panics \<Rightarrow> Panics
         | Returns th \<Rightarrow>
            (if (th ! 3) AND 0x40 = 0x00 then getIndirect_loop b t (ii + 1) valueOff
             else let size = leUint32 (drop 4 th);
                      paddedSize = uint32 (size + 7) AND 0xFFFFFFF8
                  in getIndirect_loop b t (ii + 1) (uint32 (valueOff + paddedSize))))
      else Returns valueOff)"
  by pat_completeness auto
termination
  by (relation "measure (\<lambda>(b, t, ii, valueOff). t - ii)") auto

declare getIndirect_loop.simps [simp del]

definition MessageField_getIndirect :: "MessageField \<Rightarrow> (bytes \<times> error option) outcome" where
  "MessageField_getIndirect f =
     (if thunk f ! 3 = 0x00 then Returns ([], None)
      else if thunk f ! 3 = 0x80 then Returns ([], Some errTODO)
      else case slice (field_buf f) 6 8 of
        Panics \<Rightarrow> Panics
      | Returns c \<Rightarrow>
         (let thunkCount = leUint16 c in
          case getIndirect_loop (field_buf f) (tag f) 1 (uint32 (8 + uint32 (thunkCount * 8))) of
            Panics \<Rightarrow> Panics
          | Returns valueOff \<Rightarrow>
             (let valueSize = leUint32 (drop 4 (thunk f)) in
              case slice (field_buf f) valueOff (uint32 (valueOff + valueSize)) of
                Panics \<Rightarrow> Panics
              | Returns v \<Rightarrow> Returns (v, None))))"

text \<open>\<open>validateMessageArray\<close>: every element size must be a nonzero multiple of 8 and
  every element a valid message.\<close>

fun validateMessageArray_loop :: "bytes \<Rightarrow> nat \<Rightarrow> nat \<Rightarrow> nat \<Rightarrow> error option outcome" where
  "validateMessageArray_loop b 0 sizeOff valueOff =
     (if valueOff \<noteq> length b then Returns (Some errTODO) else Returns None)"
| "validateMessageArray_loop b (Suc n) sizeOff valueOff =
     (case slice b sizeOff (sizeOff + 4) of
        Panics \<Rightarrow> Panics
      | Returns s \<Rightarrow>
         (let valueSize = leUint32 s in
          if valueSize = 0 then Returns (Some errTODO)
          else if valueSize mod 8 \<noteq> 0 then Returns (Some errTODO)
          else let valueEnd = valueOff + valueSize in
            if valueEnd > length b then Returns (Some errTODO)
            else case slice b valueOff valueEnd of
              Panics \<Rightarrow> Panics
            | Returns v \<Rightarrow>
               (case NewMessage v of
                  Panics \<Rightarrow> Panics
                | Returns (m, Some e) \<Rightarrow> Returns (Some e)
                | Returns (m, None) \<Rightarrow> validateMessageArray_loop b n (sizeOff + 4) valueEnd)))"

definition validateMessageArray :: "bytes \<Rightarrow> error option outcome" where
  "validateMessageArray b =
     (if b = [] then Returns None
      else let bufLen = length b in
        if bufLen < 4 then Returns (Some errTODO)
        else case slice b 0 4 of
          Panics \<Rightarrow> Panics
        | Returns s \<Rightarrow>
           (let arrayLen = leUint32 s;
                valueOff = 4 + arrayLen * 4;
                valueOff = (if arrayLen AND 0x01 = 0x00 then valueOff + 4 else valueOff)
            in if valueOff > bufLen then Returns (Some errTODO)
               else validateMessageArray_loop b arrayLen 4 valueOff))"

text \<open>\<open>strings.IndexByte(value, 0x00)\<close>: the index of the first NUL, \<open>-1\<close> if there is
  none.\<close>

fun IndexByte :: "bytes \<Rightarrow> byte \<Rightarrow> int" where
  "IndexByte [] c = -1"
| "IndexByte (x # xs) c =
     (if x = c then 0 else (let r = IndexByte xs c in if r = -1 then -1 else r + 1))"

text \<open>\<open>validateTextArray\<close>: like \<open>validateMessageArray\<close> it steps over a pad word when
  the count is even; every element must end in its only NUL.\<close>

fun validateTextArray_loop :: "bytes \<Rightarrow> nat \<Rightarrow> nat \<Rightarrow> nat \<Rightarrow> error option outcome" where
  "validateTextArray_loop b 0 sizeOff valueOff =
     (if valueOff \<noteq> length b then Returns (Some errTODO) else Returns None)"
| "validateTextArray_loop b (Suc n) sizeOff valueOff =
     (case slice b sizeOff (sizeOff + 4) of
        Panics \<Rightarrow> Panics
      | Returns s \<Rightarrow>
         (let valueSize = leUint32 s in
          if valueSize = 0 then Returns (Some errTODO)
          else let valueEnd = valueOff + valueSize in
            if valueEnd > length b then Returns (Some errTODO)
            else case slice b valueOff valueEnd of
              Panics \<Rightarrow> Panics
            | Returns v \<Rightarrow>
               (let nul = IndexByte v 0x00 in
                if nul = -1 then Returns (Some errTODO)
                else if nul \<noteq> int (length v) - 1 then Returns (Some errTODO)
                else validateTextArray_loop b n (sizeOff + 4) valueEnd)))"

definition validateTextArray :: "bytes \<Rightarrow> error option outcome" where
  "validateTextArray b =
     (if b = [] then Returns None
      else let bufLen = length b in
        if bufLen < 4 then Returns (Some errTODO)
        else case slice b 0 4 of
          Panics \<Rightarrow> Panics
        | Returns s \<Rightarrow>
           (let arrayLen = leUint32 s;
                valueOff = 4 + arrayLen * 4;
                valueOff = (if arrayLen AND 0x01 = 0x00 then valueOff + 4 else valueOff)
            in if valueOff > bufLen then Returns (Some errTODO)
               else validateTextArray_loop b arrayLen 4 valueOff))"

section \<open>Package idol: array views\<close>

text \<open>
  \<open>dynArray.len\<close> and \<open>dynArray.iter(align, yield)\<close>. The iteration is modelled with a
  consumer that never stops: the result is the list of the values yielded. Offsets are
  \<open>uint32\<close> in the source.
\<close>

definition dynArray_len :: "bytes \<Rightarrow> nat outcome" where
  "dynArray_len a =
     (if length a = 0 then Returns 0
      else case slice a 0 4 of Panics \<Rightarrow> Panics | Returns s \<Rightarrow> Returns (leUint32 s))"

fun dynArray_iter_loop :: "bytes \<Rightarrow> nat \<Rightarrow> nat \<Rightarrow> nat \<Rightarrow> bytes list outcome" where
  "dynArray_iter_loop a 0 sizeOff valueOff = Returns []"
| "dynArray_iter_loop a (Suc n) sizeOff valueOff =
     (case slice a sizeOff (sizeOff + 4) of
        Panics \<Rightarrow> Panics
      | Returns s \<Rightarrow>
         (let size = leUint32 s in
          case slice a valueOff (uint32 (valueOff + size)) of
            Panics \<Rightarrow> Panics
          | Returns v \<Rightarrow>
             (case dynArray_iter_loop a n (sizeOff + 4) (uint32 (valueOff + size)) of
                Panics \<Rightarrow> Panics
              | Returns vs \<Rightarrow> Returns (v # vs))))"

definition dynArray_iter :: "bool \<Rightarrow> bytes \<Rightarrow> bytes list outcome" where
  "dynArray_iter align a =
     (case dynArray_len a of
        Panics \<Rightarrow> Panics
      | Returns arrayLen \<Rightarrow>
         (if arrayLen = 0 then Returns []
          else let valueOff = uint32 (4 + uint32 (arrayLen * 4));
                   valueOff = (if align \<and> arrayLen AND 0x01 = 0x00 then uint32 (valueOff + 4)
                               else valueOff)
               in dynArray_iter_loop a arrayLen 4 valueOff))"

text \<open>\<open>TextArray.Iter\<close> drops the last byte (the NUL) of every non-empty value.\<close>

definition TextArray_Iter :: "bytes \<Rightarrow> bytes list outcome" where
  "TextArray_Iter a =
     (case dynArray_iter False a of
        Panics \<Rightarrow> Panics
      | Returns vs \<Rightarrow>
         Returns (map (\<lambda>v. if length v > 0 then take (length v - 1) v else v) vs))"

section \<open>Package idol: field builders\<close>

text \<open>A thunk handed to \<open>PutThunk\<close> is an 8-byte slice; the builder writes the flags at
  bytes 2..4 and the value or length at bytes 4..8 when the field is present.\<close>

subsection \<open>Uint32FieldBuilder\<close>

definition Uint32_IsPresent :: "nat \<Rightarrow> bool" where
  "Uint32_IsPresent v = (v \<noteq> 0)"

definition Uint32_PutThunk :: "nat \<Rightarrow> bytes \<Rightarrow> bytes" where
  "Uint32_PutThunk v th =
     (if Uint32_IsPresent v
      then write_at (write_at th 2 (putUint16 0x8000)) 4 (putUint32 v)
      else th)"

subsection \<open>TextFieldBuilder\<close>

definition Text_IsPresent :: "bytes \<Rightarrow> bool" where
  "Text_IsPresent v = (length v > 0)"

definition Text_DataSize :: "bytes \<Rightarrow> nat" where
  "Text_DataSize v =
     (if \<not> Text_IsPresent v then 0
      else let size = uint32 (uint32 (length v) + 1)
           in if size mod 8 \<noteq> 0 then uint32 (size + 7) AND 0xFFFFFFF8 else size)"

definition Text_PutThunk :: "bytes \<Rightarrow> bytes \<Rightarrow> bytes" where
  "Text_PutThunk v th =
     (if Text_IsPresent v
      then write_at (write_at th 2 (putUint16 0xC000)) 4 (putUint32 (uint32 (length v + 1)))
      else th)"

text \<open>\<open>EncodeData(w)\<close>: the bytes written to \<open>w\<close>; the writer (a \<open>bytes.Buffer\<close>) does
  not fail. The subtraction \<open>paddedSize - size\<close> is \<open>uint32\<close>.\<close>

definition Text_EncodeData :: "bytes \<Rightarrow> bytes" where
  "Text_EncodeData v =
     (if \<not> Text_IsPresent v then []
      else let size = uint32 (length v);
               paddedSize = uint32 (size + 1);
               paddedSize = (if paddedSize mod 8 \<noteq> 0
                             then uint32 (uint32 (size + 1) + 7) AND 0xFFFFFFF8 else paddedSize);
               padLen = (paddedSize + 4294967296 - size) mod 4294967296
           in v @ replicate padLen 0x00)"

subsection \<open>TextArrayFieldBuilder\<close>

record TextArrayFieldBuilder =
  values' :: "bytes list"
  valuesSize :: nat

definition TextArray_Set :: "bytes list \<Rightarrow> TextArrayFieldBuilder" where
  "TextArray_Set vs =
     \<lparr>values' = vs,
      valuesSize = fold (\<lambda>v sz. uint32 (sz + uint32 (uint32 (length v) + 1))) vs 0\<rparr>"

definition TextArray_IsPresent :: "TextArrayFieldBuilder \<Rightarrow> bool" where
  "TextArray_IsPresent b = (length (values' b) > 0)"

definition TextArray_DataSize :: "TextArrayFieldBuilder \<Rightarrow> nat" where
  "TextArray_DataSize b =
     (if length (values' b) = 0 then 0
      else let size = uint32 (uint32 (4 + uint32 (4 * uint32 (length (values' b)))) + valuesSize b)
           in if size mod 8 \<noteq> 0 then uint32 (size + 7) AND 0xFFFFFFF8 else size)"

definition TextArray_PutThunk :: "TextArrayFieldBuilder \<Rightarrow> bytes \<Rightarrow> bytes" where
  "TextArray_PutThunk b th =
     (if TextArray_IsPresent b
      then write_at (write_at th 2 (putUint16 0xC000)) 4 (putUint32 (TextArray_DataSize b))
      else th)"

definition TextArray_EncodeData :: "TextArrayFieldBuilder \<Rightarrow> bytes" where
  "TextArray_EncodeData b =
     (if \<not> TextArray_IsPresent b then []
      else let sizes = putUint32 (uint32 (length (values' b)))
                        @ concat (map (\<lambda>v. putUint32 (uint32 (uint32 (length v) + 1))) (values' b));
               elems = concat (map (\<lambda>v. v @ [0x00]) (values' b));
               wrote = length sizes + length elems
           in sizes @ elems @ (if wrote mod 8 \<noteq> 0 then replicate (8 - wrote mod 8) 0x00 else []))"

subsection \<open>MessageSizeBuilder\<close>

record MessageSizeBuilder =
  dataSize :: nat
  thunksLen :: nat

definition Scalar :: "MessageSizeBuilder \<Rightarrow> nat \<Rightarrow> MessageSizeBuilder" where
  "Scalar b t = b\<lparr>thunksLen := t\<rparr>"

definition Indirect :: "MessageSizeBuilder \<Rightarrow> nat \<Rightarrow> nat \<Rightarrow> MessageSizeBuilder" where
  "Indirect b t dsz =
     (let b = b\<lparr>thunksLen := t\<rparr> in
      if dsz > 0
      then (let s = dataSize b + dsz; s = (if s > 4294967295 then 4294967295 else s)
            in b\<lparr>dataSize := s\<rparr>)
      else b)"

definition MessageSizeBuilder_Finish :: "MessageSizeBuilder \<Rightarrow> nat \<times> nat" where
  "MessageSizeBuilder_Finish b =
     (if thunksLen b = 0 then (0, 0)
      else let s = 8 + thunksLen b * 8 + dataSize b;
               s = (if s > 4294967295 then 4294967295 else s)
           in (s, thunksLen b))"

section \<open>Encoding and decoding a whole message\<close>

text \<open>The two kinds of field builder of the layout scenario.\<close>

datatype FieldBuilder = Uint32FieldBuilder nat | TextFieldBuilder bytes

fun FieldBuilder_PutThunk :: "FieldBuilder \<Rightarrow> bytes \<Rightarrow> bytes" where
  "FieldBuilder_PutThunk (Uint32FieldBuilder v) th = Uint32_PutThunk v th"
| "FieldBuilder_PutThunk (TextFieldBuilder v) th = Text_PutThunk v th"

fun FieldBuilder_EncodeData :: "FieldBuilder \<Rightarrow> bytes" where
  "FieldBuilder_EncodeData (Uint32FieldBuilder v) = []"
| "FieldBuilder_EncodeData (TextFieldBuilder v) = Text_EncodeData v"

fun FieldBuilder_size :: "MessageSizeBuilder \<Rightarrow> nat \<times> FieldBuilder \<Rightarrow> MessageSizeBuilder" where
  "FieldBuilder_size b (t, Uint32FieldBuilder v) = (if Uint32_IsPresent v then Scalar b t else b)"
| "FieldBuilder_size b (t, TextFieldBuilder v) =
     (if Text_IsPresent v then Indirect b t (Text_DataSize v) else b)"

text \<open>
  Modelled from the spec: the \<open>EncodeTo\<close> method of a message builder is generated code
  and is not among the sources. Section 4.5.6 of the specification describes it: the
  encoder drives the per-field builders, computes the total message size (header, thunks
  and padded data), writes the header and the thunk table, then streams the data region
  in tag order. The field builders and \<open>MessageSizeBuilder\<close> it drives are the ones of
  the sources; the fields are given in tag order, starting at tag 1.
\<close>

definition EncodeTo :: "FieldBuilder list \<Rightarrow> bytes" where
  "EncodeTo fs =
     (let sz = MessageSizeBuilder_Finish
                 (foldl FieldBuilder_size \<lparr>dataSize = 0, thunksLen = 0\<rparr>
                    (zip [1 ..< Suc (length fs)] fs));
          header = putUint32 (fst sz) @ putUint16 0x0000 @ putUint16 (snd sz);
          thunks = concat (map (\<lambda>f. FieldBuilder_PutThunk f (replicate 8 0x00))
                             (take (snd sz) fs));
          data = concat (map FieldBuilder_EncodeData fs)
      in header @ thunks @ data)"

text \<open>
  Modelled from the spec: the \<open>DecodeAs\<close> method of a message type is generated code
  and is not among the sources. Section 4.5.7 of the specification describes it:
  validation runs once per buffer, before field access; a buffer is rejected with a
  decode error or is usable for field access. Validation is \<open>NewMessageDecoder\<close> of the
  sources; the decoded message wraps the validated buffer.
\<close>

definition DecodeAs :: "bytes \<Rightarrow> (error + DecodedMessage) outcome" where
  "DecodeAs b =
     (case NewMessageDecoder b of
        Panics \<Rightarrow> Panics
      | Returns (d, b') \<Rightarrow>
         (case Finish d of
            Some e \<Rightarrow> Returns (Inl e)
          | None \<Rightarrow> Returns (Inr (DecodedMessage (buf d)))))"

text \<open>A text as its bytes.\<close>

definition str :: "string \<Rightarrow> bytes" where
  "str s = map of_char s"

text \<open>A decoder callback that rejects every element.\<close>

definition rejectAll :: "bytes \<Rightarrow> error option outcome" where
  "rejectAll v = Returns (Some errTODO)"

section \<open>Evaluation of the binary format on concrete buffers\<close>

lemmas le_defs = leUint16_def leUint32_def leUint64_def putUint16_def putUint32_def uint32_def

lemmas decode_defs = NewMessageDecoder_def decodeThunks_def decodeThunks_loop.simps
  NewMessage_def validateEncodedThunks_def validateEncodedThunks_loop.simps
  MaxMessageSize_def slice_def index_def Finish_def

lemmas access_defs = Has_def GetIndirect_def GetUint32_def GetText_def Size_def
  has_def getIndirect_def

text \<open>
  C1. The claim: for every input buffer, validation either accepts it or returns a decode
  error, never crashes. The code reads the tail padding of an indirect thunk before it
  checks that the running data offset stays within the message: on the 16-byte message
  below (one indirect thunk of length 1, no data region) both \<open>idolbin.NewMessage\<close> and
  \<open>idol.NewMessageDecoder\<close> slice \<open>buf[17:24]\<close> and panic.
\<close>

theorem C1_padding_read_panics:
  "NewMessage [16,0,0,0, 0,0, 1,0,  0,0,0,0xC0, 1,0,0,0] = Panics
   \<and> NewMessageDecoder [16,0,0,0, 0,0, 1,0,  0,0,0,0xC0, 1,0,0,0] = Panics"
  by (simp add: decode_defs le_defs)

text \<open>Three more ways in which validation is not all-or-nothing. A handle thunk with
  count 1 and value \<open>0xFFFFFFFF\<close> panics in \<open>decodeThunks\<close> (and is accepted by
  \<open>validateEncodedThunks\<close>).\<close>

lemma decodeThunks_handle_panics:
  "NewMessageDecoder [16,0,0,0, 0,0, 1,0,  1,0,0,0x80, 0xFF,0xFF,0xFF,0xFF] = Panics
   \<and> NewMessage [16,0,0,0, 0,0, 1,0,  1,0,0,0x80, 0xFF,0xFF,0xFF,0xFF]
       = Returns ([16,0,0,0, 0,0, 1,0,  1,0,0,0x80, 0xFF,0xFF,0xFF,0xFF], None)"
  by (simp add: decode_defs le_defs)

text \<open>A buffer rejected at its second thunk has its first thunk rewritten already.\<close>

lemma decodeThunks_rejects_after_rewriting:
  "NewMessageDecoder [24,0,0,0, 0,0, 2,0,  0,0,0,0xC0, 0,0,0,0,  0,0,1,0x80, 0,0,0,0]
     = Returns (\<lparr>buf = [], err = Some errTODO\<rparr>,
                [24,0,0,0, 0,0, 2,0,  3,0,0,0xC0, 0,0,0,0,  0,0,1,0x80, 0,0,0,0])"
  by (simp add: decode_defs le_defs)

text \<open>An indirect length of \<open>0xFFFFFFFF\<close> pads to 0 in 32 bits: the buffer is accepted
  and reading the field panics.\<close>

lemma accepted_buffer_field_access_panics:
  "NewMessageDecoder [16,0,0,0, 0,0, 1,0,  0,0,0,0xC0, 0xFF,0xFF,0xFF,0xFF]
     = Returns (\<lparr>buf = [16,0,0,0, 0,0, 1,0,  2,0,0,0xC0, 0xFF,0xFF,0xFF,0xFF], err = None\<rparr>,
                [16,0,0,0, 0,0, 1,0,  2,0,0,0xC0, 0xFF,0xFF,0xFF,0xFF])
   \<and> GetIndirect (DecodedMessage [16,0,0,0, 0,0, 1,0,  2,0,0,0xC0, 0xFF,0xFF,0xFF,0xFF]) 1
       = Panics"
  by (simp add: decode_defs access_defs le_defs)

subsection \<open>Unfolding the counted loops at a numeral\<close>

lemma replicate_numeral: "replicate (numeral k) x = x # replicate (pred_numeral k) x"
  by (simp add: numeral_eq_Suc)

lemma MessageArray_loop_numeral:
  "MessageArray_loop decode b (numeral k) sizeOff valueOff =
     (case slice b sizeOff (sizeOff + 4) of
        Panics \<Rightarrow> Panics
      | Returns s \<Rightarrow>
         (let valueSize = leUint32 s in
          if valueSize = 0 then MessageArray_loop decode b (pred_numeral k) (sizeOff + 4) valueOff
          else if valueSize mod 8 \<noteq> 0 then Returns (Some errTODO)
          else let valueEnd = valueOff + valueSize in
            if valueEnd > length b then Returns (Some errTODO)
            else case slice b valueOff valueEnd of
              Panics \<Rightarrow> Panics
            | Returns v \<Rightarrow>
               (case decode v of
                  Panics \<Rightarrow> Panics
                | Returns (Some e) \<Rightarrow> Returns (Some e)
                | Returns None \<Rightarrow>
                    MessageArray_loop decode b (pred_numeral k) (sizeOff + 4) valueEnd)))"
  by (simp add: numeral_eq_Suc)

lemma validateMessageArray_loop_numeral:
  "validateMessageArray_loop b (numeral k) sizeOff valueOff =
     (case slice b sizeOff (sizeOff + 4) of
        Panics \<Rightarrow> Panics
      | Returns s \<Rightarrow>
         (let valueSize = leUint32 s in
          if valueSize = 0 then Returns (Some errTODO)
          else if valueSize mod 8 \<noteq> 0 then Returns (Some errTODO)
          else let valueEnd = valueOff + valueSize in
            if valueEnd > length b then Returns (Some errTODO)
            else case slice b valueOff valueEnd of
              Panics \<Rightarrow> Panics
            | Returns v \<Rightarrow>
               (case NewMessage v of
                  Panics \<Rightarrow> Panics
                | Returns (m, Some e) \<Rightarrow> Returns (Some e)
                | Returns (m, None) \<Rightarrow>
                    validateMessageArray_loop b (pred_numeral k) (sizeOff + 4) valueEnd)))"
  by (simp add: numeral_eq_Suc)

lemma validateTextArray_loop_numeral:
  "validateTextArray_loop b (numeral k) sizeOff valueOff =
     (case slice b sizeOff (sizeOff + 4) of
        Panics \<Rightarrow> Panics
      | Returns s \<Rightarrow>
         (let valueSize = leUint32 s in
          if valueSize = 0 then Returns (Some errTODO)
          else let valueEnd = valueOff + valueSize in
            if valueEnd > length b then Returns (Some errTODO)
            else case slice b valueOff valueEnd of
              Panics \<Rightarrow> Panics
            | Returns v \<Rightarrow>
               (let nul = IndexByte v 0x00 in
                if nul = -1 then Returns (Some errTODO)
                else if nul \<noteq> int (length v) - 1 then Returns (Some errTODO)
                else validateTextArray_loop b (pred_numeral k) (sizeOff + 4) valueEnd)))"
  by (simp add: numeral_eq_Suc)

lemma dynArray_iter_loop_numeral:
  "dynArray_iter_loop a (numeral k) sizeOff valueOff =
     (case slice a sizeOff (sizeOff + 4) of
        Panics \<Rightarrow> Panics
      | Returns s \<Rightarrow>
         (let size = leUint32 s in
          case slice a valueOff (uint32 (valueOff + size)) of
            Panics \<Rightarrow> Panics
          | Returns v \<Rightarrow>
             (case dynArray_iter_loop a (pred_numeral k) (sizeOff + 4) (uint32 (valueOff + size)) of
                Panics \<Rightarrow> Panics
              | Returns vs \<Rightarrow> Returns (v # vs))))"
  by (simp add: numeral_eq_Suc)

lemmas enc_defs = EncodeTo_def MessageSizeBuilder_Finish_def Scalar_def Indirect_def
  Uint32_IsPresent_def Uint32_PutThunk_def Text_IsPresent_def Text_DataSize_def Text_PutThunk_def
  Text_EncodeData_def str_def replicate_numeral upt_rec

lemmas arr_defs = TextArray_Set_def TextArray_IsPresent_def TextArray_DataSize_def
  TextArray_PutThunk_def TextArray_EncodeData_def validateTextArray_def TextArray_Iter_def
  dynArray_iter_def dynArray_len_def slice_def str_def replicate_numeral
  validateTextArray_loop_numeral dynArray_iter_loop_numeral

subsection \<open>The layout scenario: a scalar, an absent field and a text\<close>

definition layout_fields :: "FieldBuilder list" where
  "layout_fields =
     [Uint32FieldBuilder 0x04030201, TextFieldBuilder [], TextFieldBuilder (str ''Hello'')]"

definition layout_decoded :: DecodedMessage where
  "layout_decoded = DecodedMessage
     ([40,0,0,0, 0,0, 3,0,
       0,0, 0x00,0x80, 0x01,0x02,0x03,0x04,
       0,0, 0,0, 0,0,0,0,
       4,0, 0x00,0xC0, 6,0,0,0] @ str ''Hello'' @ [0,0,0])"

lemma layout_encoded:
  "EncodeTo layout_fields =
     [40,0,0,0, 0,0, 3,0,
      0,0, 0x00,0x80, 0x01,0x02,0x03,0x04,
      0,0, 0,0, 0,0,0,0,
      0,0, 0x00,0xC0, 6,0,0,0] @ str ''Hello'' @ [0,0,0]"
  by (simp add: layout_fields_def enc_defs le_defs)

lemma layout_decode: "DecodeAs (EncodeTo layout_fields) = Returns (Inr layout_decoded)"
  by (simp add: layout_encoded layout_decoded_def DecodeAs_def decode_defs le_defs str_def)

text \<open>
  C2. Encoding the message with field 1 = u32 \<open>0x04030201\<close>, field 2 absent and field
  3 = text "Hello" gives a header (messageSize 40 = the total length, flags 0, thunkCount
  3), a present-scalar thunk holding the value inline, an all-zero thunk, a
  present-indirect thunk of length 6, and the data "Hello" followed by three NUL bytes.
  Decoding that buffer succeeds; \<open>Has(1)\<close> holds, \<open>GetUint32(1)\<close> is \<open>0x04030201\<close>,
  \<open>Has(2)\<close> fails, \<open>GetText(3)\<close> is "Hello", and the decoded size is the buffer length.
\<close>

theorem C2_layout_round_trip:
  "EncodeTo layout_fields =
     putUint32 40 @ putUint16 0 @ putUint16 3
     @ ([0,0] @ putUint16 0x8000 @ putUint32 0x04030201)
     @ replicate 8 0x00
     @ ([0,0] @ putUint16 0xC000 @ putUint32 6)
     @ str ''Hello'' @ [0x00, 0x00, 0x00]
   \<and> length (EncodeTo layout_fields) = 40
   \<and> DecodeAs (EncodeTo layout_fields) = Returns (Inr layout_decoded)
   \<and> Has layout_decoded 1 = Returns True
   \<and> GetUint32 layout_decoded 1 = Returns 0x04030201
   \<and> Has layout_decoded 2 = Returns False
   \<and> GetText layout_decoded 3 = Returns (str ''Hello'')
   \<and> Size layout_decoded = Returns (length (EncodeTo layout_fields))"
proof -
  have 1: "EncodeTo layout_fields =
     putUint32 40 @ putUint16 0 @ putUint16 3
     @ ([0,0] @ putUint16 0x8000 @ putUint32 0x04030201)
     @ replicate 8 0x00
     @ ([0,0] @ putUint16 0xC000 @ putUint32 6)
     @ str ''Hello'' @ [0x00, 0x00, 0x00]"
    by (simp add: layout_encoded le_defs replicate_numeral)
  have 2: "length (EncodeTo layout_fields) = 40"
    by (simp add: layout_encoded str_def)
  have 3: "Has layout_decoded 1 = Returns True"
    by (simp add: layout_decoded_def access_defs slice_def index_def le_defs)
  have 4: "GetUint32 layout_decoded 1 = Returns 0x04030201"
    by (simp add: layout_decoded_def access_defs slice_def index_def le_defs)
  have 5: "Has layout_decoded 2 = Returns False"
    by (simp add: layout_decoded_def access_defs slice_def index_def le_defs)
  have 6: "GetText layout_decoded 3 = Returns (str ''Hello'')"
    by (simp add: layout_decoded_def access_defs slice_def index_def le_defs str_def)
  have 7: "Size layout_decoded = Returns 40"
    by (simp add: layout_decoded_def access_defs slice_def le_defs)
  show ?thesis
    using 1 2 3 4 5 6 7 layout_decode by simp
qed

subsection \<open>The text array scenario\<close>

definition hello_world :: "bytes list" where
  "hello_world = [str ''Hello'', str '''', str '', '', str ''world!'']"

definition hello_world_wire :: bytes where
  "hello_world_wire =
     putUint32 4
     @ putUint32 6 @ putUint32 1 @ putUint32 3 @ putUint32 7
     @ str ''Hello'' @ [0x00] @ [0x00] @ str '', '' @ [0x00] @ str ''world!'' @ [0x00]"

text \<open>
  C3. The encoder writes the array ["Hello", "", ", ", "world!"] as the count 4, the
  sizes 6, 1, 3, 7 and the element bytes with no pad word between (three zero bytes
  follow, aligning the payload to 8), and \<open>TextArray.Iter\<close> over those bytes yields the
  four texts. The validation on decode does not share the layout: \<open>validateTextArray\<close>
  steps over a pad word after the sizes because the count is even, and rejects the
  encoder's bytes, with or without their alignment padding.
\<close>

theorem C3_text_array_layout:
  "TextArray_EncodeData (TextArray_Set hello_world) = hello_world_wire @ [0x00, 0x00, 0x00]
   \<and> TextArray_Iter (TextArray_EncodeData (TextArray_Set hello_world)) = Returns hello_world
   \<and> TextArray_Iter hello_world_wire = Returns hello_world
   \<and> validateTextArray (TextArray_EncodeData (TextArray_Set hello_world)) = Returns (Some errTODO)
   \<and> validateTextArray hello_world_wire = Returns (Some errTODO)"
proof -
  have 1: "TextArray_EncodeData (TextArray_Set hello_world) = hello_world_wire @ [0x00, 0x00, 0x00]"
    by (simp add: hello_world_def hello_world_wire_def arr_defs le_defs)
  have 2: "TextArray_Iter (hello_world_wire @ [0x00, 0x00, 0x00]) = Returns hello_world"
    by (simp add: hello_world_def hello_world_wire_def arr_defs le_defs)
  have 3: "TextArray_Iter hello_world_wire = Returns hello_world"
    by (simp add: hello_world_def hello_world_wire_def arr_defs le_defs)
  have 4: "validateTextArray (hello_world_wire @ [0x00, 0x00, 0x00]) = Returns (Some errTODO)"
    by (simp add: hello_world_wire_def arr_defs le_defs)
  have 5: "validateTextArray hello_world_wire = Returns (Some errTODO)"
    by (simp add: hello_world_wire_def arr_defs le_defs)
  show ?thesis
    using 1 2 3 4 5 by simp
qed

text \<open>With an odd count the two layouts coincide: the three-element array of the
  package's own test is accepted.\<close>

lemma validateTextArray_odd_count:
  "validateTextArray (putUint32 3 @ putUint32 6 @ putUint32 3 @ putUint32 7
      @ str ''Hello'' @ [0x00] @ str '', '' @ [0x00] @ str ''world!'' @ [0x00]) = Returns None"
  by (simp add: arr_defs le_defs)

section \<open>Validation of message arrays\<close>

text \<open>
  The elements of a dynamic array payload as both validators walk them: the sizes are
  read from \<open>sizeOff\<close> on, the elements lie one after the other from \<open>valueOff\<close> on.
  Each entry is the size read and the bytes of the element.
\<close>

fun array_elems :: "bytes \<Rightarrow> nat \<Rightarrow> nat \<Rightarrow> nat \<Rightarrow> (nat \<times> bytes) list" where
  "array_elems b 0 sizeOff valueOff = []"
| "array_elems b (Suc n) sizeOff valueOff =
     (let valueSize = leUint32 (take 4 (drop sizeOff b))
      in (valueSize, take valueSize (drop valueOff b))
         # array_elems b n (sizeOff + 4) (valueOff + valueSize))"

text \<open>In a message array a pad word follows the sizes when the count is even.\<close>

definition message_array_elems :: "bytes \<Rightarrow> (nat \<times> bytes) list" where
  "message_array_elems b =
     (let arrayLen = leUint32 (take 4 b);
          valueOff = 4 + arrayLen * 4
      in array_elems b arrayLen 4 (if arrayLen AND 0x01 = 0x00 then valueOff + 4 else valueOff))"

text \<open>What \<open>idolbin.validateMessageArray\<close> demands of an element, and what
  \<open>MessageDecoder.MessageArray\<close> demands with the element decoder \<open>decode\<close>.\<close>

definition idolbin_elem_ok :: "nat \<times> bytes \<Rightarrow> bool" where
  "idolbin_elem_ok e =
     (fst e \<noteq> 0 \<and> fst e mod 8 = 0 \<and> length (snd e) = fst e
      \<and> NewMessage (snd e) = Returns (snd e, None))"

definition idol_elem_ok :: "(bytes \<Rightarrow> error option outcome) \<Rightarrow> nat \<times> bytes \<Rightarrow> bool" where
  "idol_elem_ok decode e =
     (fst e = 0 \<or> (fst e mod 8 = 0 \<and> length (snd e) = fst e \<and> decode (snd e) = Returns None))"

lemma slice_Returns:
  "slice b lo hi = Returns s \<Longrightarrow> s = take (hi - lo) (drop lo b) \<and> lo \<le> hi \<and> hi \<le> length b"
  by (auto simp: slice_def split: if_splits)

lemma NewMessage_Returns_None: "NewMessage v = Returns (m, None) \<Longrightarrow> m = v"
  by (auto simp: NewMessage_def Let_def split: if_splits outcome.splits option.splits prod.splits)

lemma validateMessageArray_loop_elems:
  "validateMessageArray_loop b n sizeOff valueOff = Returns None \<Longrightarrow>
     list_all idolbin_elem_ok (array_elems b n sizeOff valueOff)"
proof (induction n arbitrary: sizeOff valueOff)
  case 0
  then show ?case by simp
next
  case (Suc n)
  from Suc.prems obtain s where s: "slice b sizeOff (sizeOff + 4) = Returns s"
    by (auto split: outcome.splits)
  then have s4: "s = take 4 (drop sizeOff b)" by (auto dest: slice_Returns)
  let ?sz = "leUint32 s"
  from Suc.prems s have nz: "?sz \<noteq> 0" and m8: "?sz mod 8 = 0"
    and le: "valueOff + ?sz \<le> length b"
    by (auto simp: Let_def split: if_splits)
  from Suc.prems s nz m8 le obtain v where v: "slice b valueOff (valueOff + ?sz) = Returns v"
    by (auto simp: Let_def split: outcome.splits)
  then have v': "v = take ?sz (drop valueOff b)" by (auto dest: slice_Returns)
  have lv: "length v = ?sz" using v' le by simp
  from Suc.prems s nz m8 le v obtain m where m: "NewMessage v = Returns (m, None)"
     and rest: "validateMessageArray_loop b n (sizeOff + 4) (valueOff + ?sz) = Returns None"
    by (auto simp: Let_def split: outcome.splits option.splits prod.splits)
  have mv: "m = v" using m by (rule NewMessage_Returns_None)
  show ?case using Suc.IH[OF rest] nz m8 m mv s4 v' lv by (simp add: Let_def idolbin_elem_ok_def)
qed

lemma MessageArray_loop_elems:
  "MessageArray_loop decode b n sizeOff valueOff = Returns None \<Longrightarrow>
     list_all (idol_elem_ok decode) (array_elems b n sizeOff valueOff)"
proof (induction n arbitrary: sizeOff valueOff)
  case 0
  then show ?case by simp
next
  case (Suc n)
  from Suc.prems obtain s where s: "slice b sizeOff (sizeOff + 4) = Returns s"
    by (auto split: outcome.splits)
  then have s4: "s = take 4 (drop sizeOff b)" by (auto dest: slice_Returns)
  let ?sz = "leUint32 s"
  show ?case
  proof (cases "?sz = 0")
    case True
    with Suc.prems s have "MessageArray_loop decode b n (sizeOff + 4) valueOff = Returns None"
      by (simp add: Let_def)
    from Suc.IH[OF this] True s4 show ?thesis by (simp add: Let_def idol_elem_ok_def)
  next
    case False
    from Suc.prems s False have m8: "?sz mod 8 = 0" and le: "valueOff + ?sz \<le> length b"
      by (auto simp: Let_def split: if_splits)
    from Suc.prems s False m8 le obtain v where
      v: "slice b valueOff (valueOff + ?sz) = Returns v"
      by (auto simp: Let_def split: outcome.splits)
    then have v': "v = take ?sz (drop valueOff b)" by (auto dest: slice_Returns)
    have lv: "length v = ?sz" using v' le by simp
    from Suc.prems s False m8 le v have d: "decode v = Returns None"
      and rest: "MessageArray_loop decode b n (sizeOff + 4) (valueOff + ?sz) = Returns None"
      by (auto simp: Let_def split: outcome.splits option.splits)
    show ?thesis using Suc.IH[OF rest] m8 d s4 v' lv by (simp add: Let_def idol_elem_ok_def)
  qed
qed

text \<open>
  C4, as the code has it. \<open>idolbin.validateMessageArray\<close> accepts a payload only if
  every element size is a nonzero multiple of 8 and every element is itself a valid
  message (an element size of 0 is a decode error). \<open>MessageDecoder.MessageArray\<close> of
  package idol accepts a payload only if every element size is 0, such an element being
  skipped, or a multiple of 8 whose element the supplied decoder accepts.
\<close>

theorem C4_message_array_elements:
  "(b \<noteq> [] \<and> validateMessageArray b = Returns None
      \<longrightarrow> list_all idolbin_elem_ok (message_array_elems b))
   \<and> (MessageArray_payload decode b = Returns None
      \<longrightarrow> list_all (idol_elem_ok decode) (message_array_elems b))"
proof (intro conjI impI)
  assume a: "b \<noteq> [] \<and> validateMessageArray b = Returns None"
  then obtain s where s: "slice b 0 4 = Returns s"
    by (auto simp: validateMessageArray_def Let_def split: if_splits outcome.splits)
  then have s4: "s = take 4 b" by (auto dest: slice_Returns)
  from a s have "validateMessageArray_loop b (leUint32 s) 4
      (if leUint32 s AND 0x01 = 0x00 then 4 + leUint32 s * 4 + 4 else 4 + leUint32 s * 4)
      = Returns None"
    by (auto simp: validateMessageArray_def Let_def split: if_splits)
  from validateMessageArray_loop_elems[OF this [unfolded s4]]
  show "list_all idolbin_elem_ok (message_array_elems b)"
    by (simp add: message_array_elems_def Let_def)
next
  assume a: "MessageArray_payload decode b = Returns None"
  then obtain s where s: "slice b 0 4 = Returns s"
    by (auto simp: MessageArray_payload_def Let_def split: if_splits outcome.splits)
  then have s4: "s = take 4 b" by (auto dest: slice_Returns)
  from a s have "MessageArray_loop decode b (leUint32 s) 4
      (if leUint32 s AND 0x01 = 0x00 then 4 + leUint32 s * 4 + 4 else 4 + leUint32 s * 4)
      = Returns None"
    by (auto simp: MessageArray_payload_def Let_def split: if_splits)
  from MessageArray_loop_elems[OF this [unfolded s4]]
  show "list_all (idol_elem_ok decode) (message_array_elems b)"
    by (simp add: message_array_elems_def Let_def)
qed

text \<open>An array of one element, the empty 8-byte message; its decoder is validation
  by \<open>NewMessageDecoder\<close>.\<close>

definition one_empty_message :: bytes where
  "one_empty_message = putUint32 1 @ putUint32 8 @ [8,0,0,0, 0,0, 0,0]"

definition decodeEmpty :: "bytes \<Rightarrow> error option outcome" where
  "decodeEmpty v =
     (case NewMessageDecoder v of Panics \<Rightarrow> Panics | Returns (d, b') \<Rightarrow> Returns (Finish d))"

lemmas marr_defs = validateMessageArray_def MessageArray_payload_def MessageArray_def
  validateMessageArray_loop_numeral MessageArray_loop_numeral getIndirect_def has_def
  decodeEmpty_def rejectAll_def

theorem C4_message_array_elements_witness:
  "list_all idolbin_elem_ok (message_array_elems one_empty_message)
   \<and> list_all (idol_elem_ok decodeEmpty) (message_array_elems one_empty_message)"
proof -
  have 1: "one_empty_message \<noteq> [] \<and> validateMessageArray one_empty_message = Returns None"
    by (simp add: one_empty_message_def marr_defs decode_defs le_defs)
  have 2: "MessageArray_payload decodeEmpty one_empty_message = Returns None"
    by (simp add: one_empty_message_def marr_defs decode_defs le_defs)
  show ?thesis
    using C4_message_array_elements [of one_empty_message decodeEmpty] 1 2 by blast
qed

text \<open>
  C4 as the specification words it fails for package idol. The 24-byte message below
  has one indirect field whose payload is a message array of one element of size 0.
  The message is accepted, and \<open>MessageArray\<close> on field 1 leaves the decoder without an
  error, even with an element decoder that rejects everything; \<open>validateMessageArray\<close>
  rejects the same payload.
\<close>

definition zero_size_decoder :: MessageDecoder where
  "zero_size_decoder =
     \<lparr>buf = [24,0,0,0, 0,0, 1,0,  2,0,0,0xC0, 8,0,0,0,  1,0,0,0, 0,0,0,0], err = None\<rparr>"

theorem C4_zero_size_element_accepted:
  "NewMessageDecoder [24,0,0,0, 0,0, 1,0,  0,0,0,0xC0, 8,0,0,0,  1,0,0,0, 0,0,0,0]
     = Returns (zero_size_decoder, buf zero_size_decoder)
   \<and> getIndirect zero_size_decoder 1 = Returns [1,0,0,0, 0,0,0,0]
   \<and> MessageArray zero_size_decoder 1 rejectAll = Returns zero_size_decoder
   \<and> Finish zero_size_decoder = None
   \<and> validateMessageArray [1,0,0,0, 0,0,0,0] = Returns (Some errTODO)"
proof -
  have 1: "NewMessageDecoder [24,0,0,0, 0,0, 1,0,  0,0,0,0xC0, 8,0,0,0,  1,0,0,0, 0,0,0,0]
     = Returns (zero_size_decoder, buf zero_size_decoder)"
    by (simp add: zero_size_decoder_def decode_defs le_defs)
  have 2: "getIndirect zero_size_decoder 1 = Returns [1,0,0,0, 0,0,0,0]"
    by (simp add: zero_size_decoder_def marr_defs slice_def index_def le_defs)
  have 3: "MessageArray zero_size_decoder 1 rejectAll = Returns zero_size_decoder"
    by (simp add: zero_size_decoder_def marr_defs slice_def index_def le_defs)
  have 4: "validateMessageArray [1,0,0,0, 0,0,0,0] = Returns (Some errTODO)"
    by (simp add: marr_defs slice_def le_defs)
  show ?thesis
    using 1 2 3 4 by (simp add: Finish_def zero_size_decoder_def)
qed

section \<open>Package compiler: diagnostics\<close>

text \<open>
  A compiler \<open>Error\<close> carries a numeric code, a message and a source span. The
  message text is formatted for people and no property here depends on it; the model
  keeps the code and the span.
\<close>

record Span =
  start :: nat
  len :: nat

record Error =
  code :: nat
  span :: Span

definition errImportNameNotFound :: "Span \<Rightarrow> Error" where
  "errImportNameNotFound sp = \<lparr>code = 3005, span = sp\<rparr>"

definition errImportNameDefinitionConflict :: "Span \<Rightarrow> Error" where
  "errImportNameDefinitionConflict sp = \<lparr>code = 3006, span = sp\<rparr>"

definition errImportedNameNotType :: "Span \<Rightarrow> Error" where
  "errImportedNameNotType sp = \<lparr>code = 3007, span = sp\<rparr>"

definition errImportedNameNotConst :: "Span \<Rightarrow> Error" where
  "errImportedNameNotConst sp = \<lparr>code = 0x30000, span = sp\<rparr>"

section \<open>Package compiler: the schema set\<close>

datatype declType = declType_UNKNOWN | declType_CONST | declType_ENUM | declType_STRUCT
  | declType_MESSAGE | declType_UNION | declType_PROTOCOL

text \<open>The type tags and export categories of the compiled schema (\<open>schema_idl.Type\<close>,
  \<open>schema_idl.ExportType\<close>) as the compiler's sources name them; \<open>Type_zero\<close> and
  \<open>ExportType_zero\<close> are the zero values of fields left unset.\<close>

datatype Type = Type_zero | Type_BOOL | Type_U8 | Type_I8 | Type_U16 | Type_I16 | Type_U32
  | Type_I32 | Type_U64 | Type_I64 | Type_F32 | Type_F64 | Type_ASCIZ | Type_TEXT
  | Type_HANDLE | Type_STRUCT | Type_MESSAGE | Type_UNION

datatype ExportType = ExportType_zero | ExportType_CONST | ExportType_ENUM | ExportType_STRUCT
  | ExportType_MESSAGE | ExportType_UNION | ExportType_PROTOCOL

text \<open>
  A merged declaration: its category, the base type when it is an enum, and the raw
  payload. The payload is a decoded message of the compiled schema (a
  \<open>schema_idl.Const\<close>, \<open>Enum\<close>, ...), a value wrapping the bytes of the message; \<open>==\<close>
  on two payloads compares those bytes. The payload type is the parameter \<open>'p\<close>, its
  accessors \<open>Name()\<close> and \<open>Type()\<close> are the parameters \<open>Name\<close> and \<open>Type\<close> of \<open>Merge\<close>.
\<close>

record 'p mergedDecl =
  type' :: declType
  enumType :: Type
  value' :: "'p option"
  conflict :: bool

definition canUnifyMergedDecls :: "'p mergedDecl \<Rightarrow> 'p mergedDecl \<Rightarrow> bool" where
  "canUnifyMergedDecls a b =
     (if conflict a \<or> conflict b then False
      else if type' a \<noteq> type' b then False
      else if enumType a \<noteq> enumType b then False
      else case type' a of
        declType_UNKNOWN \<Rightarrow> False
      | declType_CONST \<Rightarrow> value' a = value' b
      | declType_ENUM \<Rightarrow> value' a = value' b
      | declType_STRUCT \<Rightarrow> value' a = value' b
      | declType_MESSAGE \<Rightarrow> value' a = value' b
      | declType_UNION \<Rightarrow> value' a = value' b
      | declType_PROTOCOL \<Rightarrow> value' a = value' b)"

text \<open>The entry \<open>&mergedDecl{conflict: true}\<close>.\<close>

definition conflictDecl :: "'p mergedDecl" where
  "conflictDecl =
     \<lparr>type' = declType_UNKNOWN, enumType = Type_zero, value' = None, conflict = True\<rparr>"

text \<open>A dependency schema: its namespace and its six sequences of declarations.\<close>

record 'p Schema =
  Namespace :: string
  Consts :: "'p list"
  Enums :: "'p list"
  Structs :: "'p list"
  Messages :: "'p list"
  Unions :: "'p list"
  Protocols :: "'p list"

text \<open>The closure \<open>set\<close> of \<open>Merge\<close>: a second declaration of a name within one schema
  keeps the entry if it unifies with it, and marks the entry a conflict otherwise.\<close>

definition set_decl :: "(string \<rightharpoonup> 'p mergedDecl) \<Rightarrow> string \<times> 'p mergedDecl
    \<Rightarrow> (string \<rightharpoonup> 'p mergedDecl)" where
  "set_decl decls kv =
     (case decls (fst kv) of
        Some prev \<Rightarrow> (if \<not> canUnifyMergedDecls (snd kv) prev then decls(fst kv \<mapsto> conflictDecl)
                      else decls)
      | None \<Rightarrow> decls(fst kv \<mapsto> snd kv))"

text \<open>The six loops of \<open>Merge\<close> over one schema call \<open>set\<close> on the consts, enums,
  structs, messages, unions and protocols in this order.\<close>

definition decl_of :: "declType \<Rightarrow> Type \<Rightarrow> 'p \<Rightarrow> 'p mergedDecl" where
  "decl_of t et v = \<lparr>type' = t, enumType = et, value' = Some v, conflict = False\<rparr>"

definition schema_contribs :: "('p \<Rightarrow> string) \<Rightarrow> ('p \<Rightarrow> Type) \<Rightarrow> 'p Schema
    \<Rightarrow> (string \<times> 'p mergedDecl) list" where
  "schema_contribs Name Type schema =
     map (\<lambda>c. (Name c, decl_of declType_CONST Type_zero c)) (Consts schema)
     @ map (\<lambda>e. (Name e, decl_of declType_ENUM (Type e) e)) (Enums schema)
     @ map (\<lambda>s. (Name s, decl_of declType_STRUCT Type_zero s)) (Structs schema)
     @ map (\<lambda>m. (Name m, decl_of declType_MESSAGE Type_zero m)) (Messages schema)
     @ map (\<lambda>un. (Name un, decl_of declType_UNION Type_zero un)) (Unions schema)
     @ map (\<lambda>p. (Name p, decl_of declType_PROTOCOL Type_zero p)) (Protocols schema)"

definition schema_decls :: "('p \<Rightarrow> string) \<Rightarrow> ('p \<Rightarrow> Type) \<Rightarrow> 'p Schema
    \<Rightarrow> (string \<rightharpoonup> 'p mergedDecl)" where
  "schema_decls Name Type schema = foldl set_decl Map.empty (schema_contribs Name Type schema)"

text \<open>
  Merging the declarations of a schema into those already collected for its namespace.
  The source loops over the sorted names of \<open>decls\<close>; an iteration reads and writes the
  entry of its own name only, so the loop is this map, name by name.
\<close>

definition merge_decls :: "(string \<rightharpoonup> 'p mergedDecl) \<Rightarrow> (string \<rightharpoonup> 'p mergedDecl)
    \<Rightarrow> (string \<rightharpoonup> 'p mergedDecl)" where
  "merge_decls prevDecls decls =
     (\<lambda>name. case decls name of
        None \<Rightarrow> prevDecls name
      | Some d \<Rightarrow>
         (case prevDecls name of
            Some prev \<Rightarrow> (if \<not> canUnifyMergedDecls d prev then Some conflictDecl else Some prev)
          | None \<Rightarrow> Some d))"

type_synonym 'p SchemaSet = "string \<rightharpoonup> (string \<rightharpoonup> 'p mergedDecl)"

definition Merge_step :: "('p \<Rightarrow> string) \<Rightarrow> ('p \<Rightarrow> Type) \<Rightarrow> 'p SchemaSet \<Rightarrow> 'p Schema
    \<Rightarrow> 'p SchemaSet" where
  "Merge_step Name Type declsByNs schema =
     (let decls = schema_decls Name Type schema;
          ns = Namespace schema
      in case declsByNs ns of
           Some prevDecls \<Rightarrow> declsByNs(ns \<mapsto> merge_decls prevDecls decls)
         | None \<Rightarrow> declsByNs(ns \<mapsto> decls))"

definition Merge :: "('p \<Rightarrow> string) \<Rightarrow> ('p \<Rightarrow> Type) \<Rightarrow> 'p Schema list \<Rightarrow> 'p SchemaSet" where
  "Merge Name Type schemas = foldl (Merge_step Name Type) Map.empty schemas"

definition lookup_decl :: "'p SchemaSet \<Rightarrow> string \<Rightarrow> string \<Rightarrow> 'p mergedDecl option" where
  "lookup_decl s namespace name = (case s namespace of None \<Rightarrow> None | Some decls \<Rightarrow> decls name)"

subsection \<open>What a merged entry is, from the contributions in order\<close>

text \<open>
  Two declarations are the same when they have the same category and the same payload.
  \<open>unify_all\<close> is the entry a list of contributions to one name must produce: none for
  no contribution, the first contribution when all others are the same as it, the
  conflict entry otherwise.
\<close>

definition unify_step :: "'p mergedDecl \<Rightarrow> 'p mergedDecl \<Rightarrow> 'p mergedDecl" where
  "unify_step acc d = (if canUnifyMergedDecls d acc then acc else conflictDecl)"

definition same_decl :: "'p mergedDecl \<Rightarrow> 'p mergedDecl \<Rightarrow> bool" where
  "same_decl d d' = (type' d' = type' d \<and> value' d' = value' d)"

text \<open>What every declaration handed to \<open>set\<close> by \<open>Merge\<close> satisfies.\<close>

definition contributed :: "('p \<Rightarrow> Type) \<Rightarrow> 'p mergedDecl \<Rightarrow> bool" where
  "contributed Type d =
     (\<not> conflict d \<and> type' d \<noteq> declType_UNKNOWN \<and>
      enumType d = (case (type' d, value' d) of
                      (declType_ENUM, Some e) \<Rightarrow> Type e
                    | _ \<Rightarrow> Type_zero))"

fun unify_opt :: "'p mergedDecl list \<Rightarrow> 'p mergedDecl option" where
  "unify_opt [] = None"
| "unify_opt (d # ds) = Some (foldl unify_step d ds)"

fun unify_all :: "'p mergedDecl list \<Rightarrow> 'p mergedDecl option" where
  "unify_all [] = None"
| "unify_all (d # ds) = Some (if list_all (same_decl d) ds then d else conflictDecl)"

lemma canUnify_contributed:
  "contributed Type a \<Longrightarrow> contributed Type b \<Longrightarrow> canUnifyMergedDecls a b = same_decl b a"
  by (auto simp: canUnifyMergedDecls_def contributed_def same_decl_def split: declType.splits option.splits)

lemma unify_step_conflict [simp]: "unify_step conflictDecl d = conflictDecl"
  by (simp add: unify_step_def canUnifyMergedDecls_def conflictDecl_def)

lemma foldl_unify_step_conflict [simp]: "foldl unify_step conflictDecl ds = conflictDecl"
  by (induction ds) simp_all

lemma canUnify_conflict [simp]: "canUnifyMergedDecls conflictDecl d = False"
  by (simp add: canUnifyMergedDecls_def conflictDecl_def)

lemma unify_step_contributed:
  "contributed Type d \<Longrightarrow> contributed Type x \<Longrightarrow>
     unify_step d x = (if same_decl d x then d else conflictDecl)"
  by (simp add: unify_step_def canUnify_contributed)

lemma foldl_unify_step_contributed:
  "contributed Type d \<Longrightarrow> list_all (contributed Type) ds \<Longrightarrow>
     foldl unify_step d ds = (if list_all (same_decl d) ds then d else conflictDecl)"
proof (induction ds)
  case Nil
  then show ?case by simp
next
  case (Cons x xs)
  then show ?case
    by (simp add: unify_step_contributed)
qed

lemma unify_opt_good: "list_all (contributed Type) ds \<Longrightarrow> unify_opt ds = unify_all ds"
  by (cases ds) (simp_all add: foldl_unify_step_contributed [where Type = Type])

lemma set_decl_at:
  "set_decl m kv n =
     (if fst kv = n then (case m n of None \<Rightarrow> Some (snd kv) | Some p \<Rightarrow> Some (unify_step p (snd kv)))
      else m n)"
  by (auto simp: set_decl_def unify_step_def split: option.splits)

lemma foldl_set_decl:
  "foldl set_decl m kvs n =
     (case m n of
        None \<Rightarrow> unify_opt (map snd (filter (\<lambda>kv. fst kv = n) kvs))
      | Some p \<Rightarrow> Some (foldl unify_step p (map snd (filter (\<lambda>kv. fst kv = n) kvs))))"
proof (induction kvs arbitrary: m)
  case Nil
  then show ?case by (simp split: option.splits)
next
  case (Cons kv kvs)
  show ?case
    apply (simp only: foldl_Cons)
    apply (subst Cons.IH)
    apply (subst set_decl_at)
    apply (simp split: option.splits)
    done
qed

definition merge_entry :: "'p mergedDecl option \<Rightarrow> 'p mergedDecl option
    \<Rightarrow> 'p mergedDecl option" where
  "merge_entry prev cur =
     (case cur of
        None \<Rightarrow> prev
      | Some d \<Rightarrow> (case prev of None \<Rightarrow> Some d | Some p \<Rightarrow> Some (unify_step p d)))"

lemma merge_decls_entry: "merge_decls prevDecls decls n = merge_entry (prevDecls n) (decls n)"
  by (auto simp: merge_decls_def merge_entry_def unify_step_def split: option.splits)

lemma lookup_Merge_step:
  "lookup_decl (Merge_step Name Type M schema) ns n =
     (if Namespace schema = ns then merge_entry (lookup_decl M ns n) (schema_decls Name Type schema n)
      else lookup_decl M ns n)"
  by (auto simp: Merge_step_def lookup_decl_def Let_def merge_decls_entry merge_entry_def split: option.splits)

lemma lookup_Merge_fold:
  "lookup_decl (foldl (Merge_step Name Type) M schemas) ns n =
     foldl merge_entry (lookup_decl M ns n)
       (map (\<lambda>s. schema_decls Name Type s n) (filter (\<lambda>s. Namespace s = ns) schemas))"
proof (induction schemas arbitrary: M)
  case Nil
  then show ?case by simp
next
  case (Cons s ss)
  show ?case
    apply (simp only: foldl_Cons)
    apply (subst Cons.IH)
    apply (subst lookup_Merge_step)
    apply simp
    done
qed

text \<open>The declarations a schema contributes under the name \<open>n\<close>, and those a list of
  schemas contributes under the namespace \<open>ns\<close> and the name \<open>n\<close>, in order.\<close>

definition key_contribs :: "('p \<Rightarrow> string) \<Rightarrow> ('p \<Rightarrow> Type) \<Rightarrow> string \<Rightarrow> 'p Schema
    \<Rightarrow> 'p mergedDecl list" where
  "key_contribs Name Type n schema =
     map snd (filter (\<lambda>kv. fst kv = n) (schema_contribs Name Type schema))"

lemma schema_decls_unify: "schema_decls Name Type s n = unify_opt (key_contribs Name Type n s)"
  by (simp add: schema_decls_def foldl_set_decl key_contribs_def)

lemma contributed_contribs: "list_all (contributed Type) (key_contribs Name Type n s)"
  by (auto simp: key_contribs_def schema_contribs_def list_all_iff contributed_def decl_of_def)

lemma same_decl_trans: "same_decl a b \<Longrightarrow> same_decl b c = same_decl a c"
  by (auto simp: same_decl_def)

lemma list_all_same_decl_trans: "same_decl a b \<Longrightarrow> list_all (same_decl b) cs = list_all (same_decl a) cs"
  by (induction cs) (auto simp: same_decl_trans)

lemma merge_entry_unify_opt:
  assumes "list_all (contributed Type) cs" "list_all (contributed Type) c"
  shows "merge_entry (unify_opt cs) (unify_opt c) = unify_opt (cs @ c)"
proof (cases c)
  case Nil
  then show ?thesis by (simp add: merge_entry_def)
next
  case c: (Cons d ds)
  show ?thesis
  proof (cases cs)
    case Nil
    then show ?thesis using c by (simp add: merge_entry_def)
  next
    case (Cons p0 ps)
    have gd: "contributed Type d" "list_all (contributed Type) ds" using assms c by simp_all
    have gp: "contributed Type p0" "list_all (contributed Type) ps" using assms Cons by simp_all
    have D: "foldl unify_step d ds = (if list_all (same_decl d) ds then d else conflictDecl)"
      using gd by (rule foldl_unify_step_contributed)
    have P: "foldl unify_step p0 ps = (if list_all (same_decl p0) ps then p0 else conflictDecl)"
      using gp by (rule foldl_unify_step_contributed)
    have "unify_step (foldl unify_step p0 ps) (foldl unify_step d ds) = foldl unify_step (foldl unify_step p0 ps) (d # ds)"
    proof (cases "list_all (same_decl p0) ps")
      case False
      then show ?thesis using P by simp
    next
      case True
      then have P': "foldl unify_step p0 ps = p0" using P by simp
      have R: "foldl unify_step p0 (d # ds) = (if list_all (same_decl p0) (d # ds) then p0 else conflictDecl)"
        using gp(1) gd by (intro foldl_unify_step_contributed) simp_all
      show ?thesis
      proof (cases "list_all (same_decl d) ds")
        case True
        then have "foldl unify_step d ds = d" using D by simp
        moreover have "unify_step p0 d = (if same_decl p0 d then p0 else conflictDecl)"
          using gp(1) gd(1) by (rule unify_step_contributed)
        ultimately show ?thesis unfolding P' R using True
          by (auto simp: list_all_same_decl_trans)
      next
        case False
        then have "foldl unify_step d ds = conflictDecl" using D by simp
        moreover have "\<not> list_all (same_decl p0) (d # ds)"
          using False by (auto simp: list_all_same_decl_trans)
        moreover have "unify_step p0 conflictDecl = conflictDecl"
          by (simp add: unify_step_def)
        ultimately show ?thesis unfolding P' R by auto
      qed
    qed
    then show ?thesis using c Cons by (simp add: merge_entry_def)
  qed
qed

lemma foldl_merge_entry_unify:
  "list_all (contributed Type) cs \<Longrightarrow> list_all (\<lambda>c. list_all (contributed Type) c) css \<Longrightarrow>
   foldl merge_entry (unify_opt cs) (map unify_opt css) = unify_opt (cs @ concat css)"
proof (induction css arbitrary: cs)
  case Nil
  then show ?case by simp
next
  case (Cons c css)
  have "merge_entry (unify_opt cs) (unify_opt c) = unify_opt (cs @ c)"
    using Cons.prems by (intro merge_entry_unify_opt [where Type = Type]) simp_all
  moreover have "list_all (contributed Type) (cs @ c)" using Cons.prems by simp
  ultimately show ?case using Cons.IH [of "cs @ c"] Cons.prems by simp
qed

definition contribs :: "('p \<Rightarrow> string) \<Rightarrow> ('p \<Rightarrow> Type) \<Rightarrow> 'p Schema list \<Rightarrow> string \<Rightarrow> string
    \<Rightarrow> 'p mergedDecl list" where
  "contribs Name Type schemas ns n =
     concat (map (key_contribs Name Type n) (filter (\<lambda>s. Namespace s = ns) schemas))"

lemma list_all_map_each: "(\<And>x. P (f x)) \<Longrightarrow> list_all P (map f xs)"
  by (induction xs) simp_all

lemma list_all_concat_map_each:
  "(\<And>x. list_all P (f x)) \<Longrightarrow> list_all P (concat (map f xs))"
  by (induction xs) simp_all

lemma lookup_Merge:
  "lookup_decl (Merge Name Type schemas) ns n = unify_all (contribs Name Type schemas ns n)"
proof -
  let ?ss = "filter (\<lambda>s. Namespace s = ns) schemas"
  have "lookup_decl (Merge Name Type schemas) ns n
      = foldl merge_entry None (map (\<lambda>s. schema_decls Name Type s n) ?ss)"
    by (simp add: Merge_def lookup_Merge_fold) (simp add: lookup_decl_def)
  also have "\<dots> = foldl merge_entry (unify_opt []) (map unify_opt (map (key_contribs Name Type n) ?ss))"
    by (simp add: schema_decls_unify comp_def)
  also have "\<dots> = unify_opt ([] @ concat (map (key_contribs Name Type n) ?ss))"
    by (rule foldl_merge_entry_unify [where Type = Type]) (simp_all add: list_all_map_each contributed_contribs)
  also have "\<dots> = unify_all (contribs Name Type schemas ns n)"
    by (simp add: contribs_def unify_opt_good [where Type = Type] list_all_concat_map_each
        contributed_contribs)
  finally show ?thesis .
qed


subsection \<open>Resolving a name of a dependency\<close>

record 'p typeInfo =
  typeInfo_type :: Type
  typeName :: string
  imported :: "'p option"

record 'p exportInfo =
  exportInfo_type :: ExportType
  exportInfo_typeName :: string
  exportInfo_imported :: "'p option"

definition resolveExport :: "'p SchemaSet \<Rightarrow> string \<Rightarrow> string \<Rightarrow> Span \<Rightarrow> Error + 'p exportInfo" where
  "resolveExport s namespace name nameSpan =
     (case lookup_decl s namespace name of
        None \<Rightarrow> Inl (errImportNameNotFound nameSpan)
      | Some decl \<Rightarrow>
         (if conflict decl then Inl (errImportNameDefinitionConflict nameSpan)
          else case type' decl of
            declType_UNKNOWN \<Rightarrow>
              Inr \<lparr>exportInfo_type = ExportType_zero, exportInfo_typeName = [],
                   exportInfo_imported = None\<rparr>
          | declType_CONST \<Rightarrow>
              Inr \<lparr>exportInfo_type = ExportType_CONST, exportInfo_typeName = [],
                   exportInfo_imported = value' decl\<rparr>
          | declType_ENUM \<Rightarrow>
              Inr \<lparr>exportInfo_type = ExportType_ENUM, exportInfo_typeName = [],
                   exportInfo_imported = value' decl\<rparr>
          | declType_STRUCT \<Rightarrow>
              Inr \<lparr>exportInfo_type = ExportType_STRUCT, exportInfo_typeName = [],
                   exportInfo_imported = value' decl\<rparr>
          | declType_MESSAGE \<Rightarrow>
              Inr \<lparr>exportInfo_type = ExportType_MESSAGE, exportInfo_typeName = [],
                   exportInfo_imported = value' decl\<rparr>
          | declType_UNION \<Rightarrow>
              Inr \<lparr>exportInfo_type = ExportType_UNION, exportInfo_typeName = [],
                   exportInfo_imported = value' decl\<rparr>
          | declType_PROTOCOL \<Rightarrow>
              Inr \<lparr>exportInfo_type = ExportType_PROTOCOL, exportInfo_typeName = [],
                   exportInfo_imported = value' decl\<rparr>))"

definition resolveType :: "'p SchemaSet \<Rightarrow> string \<Rightarrow> string \<Rightarrow> Span \<Rightarrow> Span
    \<Rightarrow> Error + 'p typeInfo" where
  "resolveType s namespace name importSpan useSpan =
     (case lookup_decl s namespace name of
        None \<Rightarrow> Inl (errImportNameNotFound importSpan)
      | Some decl \<Rightarrow>
         (if conflict decl then Inl (errImportNameDefinitionConflict importSpan)
          else case type' decl of
            declType_UNKNOWN \<Rightarrow>
              Inr \<lparr>typeInfo_type = Type_zero, typeName = name, imported = None\<rparr>
          | declType_ENUM \<Rightarrow>
              Inr \<lparr>typeInfo_type = enumType decl, typeName = name, imported = value' decl\<rparr>
          | declType_STRUCT \<Rightarrow>
              Inr \<lparr>typeInfo_type = Type_STRUCT, typeName = name, imported = value' decl\<rparr>
          | declType_MESSAGE \<Rightarrow>
              Inr \<lparr>typeInfo_type = Type_MESSAGE, typeName = name, imported = value' decl\<rparr>
          | declType_UNION \<Rightarrow>
              Inr \<lparr>typeInfo_type = Type_UNION, typeName = name, imported = value' decl\<rparr>
          | declType_CONST \<Rightarrow> Inl (errImportedNameNotType useSpan)
          | declType_PROTOCOL \<Rightarrow> Inl (errImportedNameNotType useSpan)))"

text \<open>\<open>resolveConst\<close> panics on an entry of unknown category, and on a const entry
  without payload (the type assertion on a \<open>nil\<close> interface).\<close>

definition resolveConst :: "'p SchemaSet \<Rightarrow> string \<Rightarrow> string \<Rightarrow> Span \<Rightarrow> Span
    \<Rightarrow> (Error + 'p) outcome" where
  "resolveConst s namespace name importSpan useSpan =
     (case lookup_decl s namespace name of
        None \<Rightarrow> Returns (Inl (errImportNameNotFound importSpan))
      | Some decl \<Rightarrow>
         (if conflict decl then Returns (Inl (errImportNameDefinitionConflict importSpan))
          else case type' decl of
            declType_CONST \<Rightarrow>
              (case value' decl of Some c \<Rightarrow> Returns (Inr c) | None \<Rightarrow> Panics)
          | declType_ENUM \<Rightarrow> Returns (Inl (errImportedNameNotConst useSpan))
          | declType_STRUCT \<Rightarrow> Returns (Inl (errImportedNameNotConst useSpan))
          | declType_MESSAGE \<Rightarrow> Returns (Inl (errImportedNameNotConst useSpan))
          | declType_UNION \<Rightarrow> Returns (Inl (errImportedNameNotConst useSpan))
          | declType_PROTOCOL \<Rightarrow> Returns (Inl (errImportedNameNotConst useSpan))
          | declType_UNKNOWN \<Rightarrow> Panics))"

text \<open>
  C9. In the schema set merged from the dependency schemas, the entry of a namespace
  and name is determined by the declarations contributed under them, in order: there is
  none without a contribution; the contributions are unified into the first one if and
  only if every other has the same category and the same payload as it; otherwise the
  entry is the conflict entry. Resolving a name whose entry is a conflict, as a type, as
  a constant or as an export, returns error 3006.
\<close>

theorem C9_merge_unifies_or_conflicts:
  "lookup_decl (Merge Name Type schemas) ns n = unify_all (contribs Name Type schemas ns n)
   \<and> (lookup_decl (Merge Name Type schemas) ns n = Some d \<and> conflict d \<longrightarrow>
        resolveType (Merge Name Type schemas) ns n importSpan useSpan
          = Inl \<lparr>code = 3006, span = importSpan\<rparr>
        \<and> resolveConst (Merge Name Type schemas) ns n importSpan useSpan
          = Returns (Inl \<lparr>code = 3006, span = importSpan\<rparr>)
        \<and> resolveExport (Merge Name Type schemas) ns n nameSpan
          = Inl \<lparr>code = 3006, span = nameSpan\<rparr>)"
  by (simp add: lookup_Merge resolveType_def resolveConst_def resolveExport_def
      errImportNameDefinitionConflict_def)

text \<open>Two schemas of the namespace "dep": the const \<open>N\<close> with two different payloads is
  a conflict, the const \<open>M\<close> with the same payload twice is unified. A payload is a name
  and a number here.\<close>

definition dep1 :: "(string \<times> nat) Schema" where
  "dep1 = \<lparr>Namespace = ''dep'', Consts = [(''N'', 1), (''M'', 7)], Enums = [], Structs = [],
           Messages = [], Unions = [], Protocols = []\<rparr>"

definition dep2 :: "(string \<times> nat) Schema" where
  "dep2 = \<lparr>Namespace = ''dep'', Consts = [(''N'', 2), (''M'', 7)], Enums = [], Structs = [],
           Messages = [], Unions = [], Protocols = []\<rparr>"

theorem C9_merge_unifies_or_conflicts_witness:
  "lookup_decl (Merge fst (\<lambda>p. Type_zero) [dep1, dep2]) ''dep'' ''M''
     = Some (decl_of declType_CONST Type_zero (''M'', 7))
   \<and> lookup_decl (Merge fst (\<lambda>p. Type_zero) [dep1, dep2]) ''dep'' ''N'' = Some conflictDecl
   \<and> resolveType (Merge fst (\<lambda>p. Type_zero) [dep1, dep2]) ''dep'' ''N''
        \<lparr>start = 10, len = 1\<rparr> \<lparr>start = 40, len = 1\<rparr>
       = Inl \<lparr>code = 3006, span = \<lparr>start = 10, len = 1\<rparr>\<rparr>
   \<and> resolveConst (Merge fst (\<lambda>p. Type_zero) [dep1, dep2]) ''dep'' ''N''
        \<lparr>start = 10, len = 1\<rparr> \<lparr>start = 40, len = 1\<rparr>
       = Returns (Inl \<lparr>code = 3006, span = \<lparr>start = 10, len = 1\<rparr>\<rparr>)
   \<and> resolveExport (Merge fst (\<lambda>p. Type_zero) [dep1, dep2]) ''dep'' ''N''
        \<lparr>start = 40, len = 1\<rparr>
       = Inl \<lparr>code = 3006, span = \<lparr>start = 40, len = 1\<rparr>\<rparr>"
proof -
  have M: "contribs fst (\<lambda>p. Type_zero) [dep1, dep2] ''dep'' ''M''
      = [decl_of declType_CONST Type_zero (''M'', 7), decl_of declType_CONST Type_zero (''M'', 7)]"
    by (simp add: contribs_def key_contribs_def schema_contribs_def dep1_def dep2_def)
  have N: "contribs fst (\<lambda>p. Type_zero) [dep1, dep2] ''dep'' ''N''
      = [decl_of declType_CONST Type_zero (''N'', 1), decl_of declType_CONST Type_zero (''N'', 2)]"
    by (simp add: contribs_def key_contribs_def schema_contribs_def dep1_def dep2_def)
  have 1: "lookup_decl (Merge fst (\<lambda>p. Type_zero) [dep1, dep2]) ''dep'' ''M''
      = Some (decl_of declType_CONST Type_zero (''M'', 7))"
    using C9_merge_unifies_or_conflicts [of fst "\<lambda>p. Type_zero" "[dep1, dep2]" "''dep''" "''M''"]
    by (simp add: M same_decl_def)
  have 2: "lookup_decl (Merge fst (\<lambda>p. Type_zero) [dep1, dep2]) ''dep'' ''N''
      = Some (conflictDecl :: (string \<times> nat) mergedDecl)"
    using C9_merge_unifies_or_conflicts [of fst "\<lambda>p. Type_zero" "[dep1, dep2]" "''dep''" "''N''"]
    by (simp add: N same_decl_def decl_of_def)
  have 3: "conflict (conflictDecl :: (string \<times> nat) mergedDecl)"
    by (simp add: conflictDecl_def)
  show ?thesis
    using C9_merge_unifies_or_conflicts [of fst "\<lambda>p. Type_zero" "[dep1, dep2]" "''dep''" "''N''"
        conflictDecl "\<lparr>start = 10, len = 1\<rparr>" "\<lparr>start = 40, len = 1\<rparr>" "\<lparr>start = 40, len = 1\<rparr>"]
      1 2 3 by simp
qed

section \<open>Package syntax: the nodes of a value\<close>

text \<open>
  A leaf node keeps the source text of its token (\<open>raw\<close>) and the offset where it
  starts; its span is the offset and the length of the text. Field names carry the node
  type as a prefix.
\<close>

record Ident =
  ident_raw :: string
  ident_start :: nat

definition Ident_Span :: "Ident \<Rightarrow> Span" where
  "Ident_Span n = \<lparr>start = ident_start n, len = length (ident_raw n)\<rparr>"

text \<open>An integer literal: \<open>value\<close> is the \<open>uint64\<close> that \<open>newIntLit\<close> stored, the two's
  complement of the magnitude when the token starts with a minus sign.\<close>

record IntLit =
  intlit_raw :: string
  intlit_value :: nat
  intlit_start :: nat

definition IntLit_Span :: "IntLit \<Rightarrow> Span" where
  "IntLit_Span n = \<lparr>start = intlit_start n, len = length (intlit_raw n)\<rparr>"

record TextLit =
  textlit_raw :: string
  textlit_value :: bytes
  textlit_start :: nat
  validAsciz :: bool
  validText :: bool

definition TextLit_Span :: "TextLit \<Rightarrow> Span" where
  "TextLit_Span n = \<lparr>start = textlit_start n, len = length (textlit_raw n)\<rparr>"

record EnumRef =
  enumref_span :: Span
  enumref_name :: Ident

record ValueName =
  valuename_span :: Span
  valuename_scope :: "Ident option"
  valuename_name :: Ident

text \<open>The nodes a value can be; \<open>Node_other\<close> is a node of any other type, with its
  span.\<close>

datatype Node = Node_IntLit IntLit | Node_TextLit TextLit | Node_EnumRef EnumRef
  | Node_ValueName ValueName | Node_other Span

fun Node_Span :: "Node \<Rightarrow> Span" where
  "Node_Span (Node_IntLit n) = IntLit_Span n"
| "Node_Span (Node_TextLit n) = TextLit_Span n"
| "Node_Span (Node_EnumRef n) = enumref_span n"
| "Node_Span (Node_ValueName n) = valuename_span n"
| "Node_Span (Node_other sp) = sp"

text \<open>The conversion \<open>int64(v)\<close> of a \<open>uint64\<close>.\<close>

definition int64 :: "nat \<Rightarrow> int" where
  "int64 v = (if v mod 2 ^ 64 < 2 ^ 63 then int (v mod 2 ^ 64) else int (v mod 2 ^ 64) - 2 ^ 64)"

text \<open>
  The accessors \<open>IntLit_GetUint8\<close> ... \<open>IntLit_GetInt64\<close>: the value and whether the literal fits.
  Each reads \<open>raw[0]\<close> first, which panics on an empty text. The signed ones return the
  signed value.
\<close>

definition IntLit_GetUint8 :: "IntLit \<Rightarrow> (nat \<times> bool) outcome" where
  "IntLit_GetUint8 n =
     (case index (intlit_raw n) 0 of
        Panics \<Rightarrow> Panics
      | Returns c \<Rightarrow>
         (if c \<noteq> CHR ''-'' \<and> intlit_value n \<le> 255 then Returns (intlit_value n mod 2 ^ 8, True)
          else Returns (0, False)))"

definition IntLit_GetUint16 :: "IntLit \<Rightarrow> (nat \<times> bool) outcome" where
  "IntLit_GetUint16 n =
     (case index (intlit_raw n) 0 of
        Panics \<Rightarrow> Panics
      | Returns c \<Rightarrow>
         (if c \<noteq> CHR ''-'' \<and> intlit_value n \<le> 65535 then Returns (intlit_value n mod 2 ^ 16, True)
          else Returns (0, False)))"

definition IntLit_GetUint32 :: "IntLit \<Rightarrow> (nat \<times> bool) outcome" where
  "IntLit_GetUint32 n =
     (case index (intlit_raw n) 0 of
        Panics \<Rightarrow> Panics
      | Returns c \<Rightarrow>
         (if c \<noteq> CHR ''-'' \<and> intlit_value n \<le> 4294967295
          then Returns (intlit_value n mod 2 ^ 32, True)
          else Returns (0, False)))"

definition IntLit_GetUint64 :: "IntLit \<Rightarrow> (nat \<times> bool) outcome" where
  "IntLit_GetUint64 n =
     (case index (intlit_raw n) 0 of
        Panics \<Rightarrow> Panics
      | Returns c \<Rightarrow>
         (if c \<noteq> CHR ''-'' then Returns (intlit_value n, True) else Returns (0, False)))"

definition IntLit_GetInt8 :: "IntLit \<Rightarrow> (int \<times> bool) outcome" where
  "IntLit_GetInt8 n =
     (case index (intlit_raw n) 0 of
        Panics \<Rightarrow> Panics
      | Returns c \<Rightarrow>
         (if c = CHR ''-'' \<and> int64 (intlit_value n) \<ge> -128 \<and> int64 (intlit_value n) \<le> 127
          then Returns (int64 (intlit_value n), True)
          else if intlit_value n \<le> 127 then Returns (int (intlit_value n), True)
          else Returns (0, False)))"

definition IntLit_GetInt16 :: "IntLit \<Rightarrow> (int \<times> bool) outcome" where
  "IntLit_GetInt16 n =
     (case index (intlit_raw n) 0 of
        Panics \<Rightarrow> Panics
      | Returns c \<Rightarrow>
         (if c = CHR ''-'' \<and> int64 (intlit_value n) \<ge> -32768 \<and> int64 (intlit_value n) \<le> 32767
          then Returns (int64 (intlit_value n), True)
          else if intlit_value n \<le> 32767 then Returns (int (intlit_value n), True)
          else Returns (0, False)))"

definition IntLit_GetInt32 :: "IntLit \<Rightarrow> (int \<times> bool) outcome" where
  "IntLit_GetInt32 n =
     (case index (intlit_raw n) 0 of
        Panics \<Rightarrow> Panics
      | Returns c \<Rightarrow>
         (if c = CHR ''-'' \<and> int64 (intlit_value n) \<ge> -2147483648
              \<and> int64 (intlit_value n) \<le> 2147483647
          then Returns (int64 (intlit_value n), True)
          else if intlit_value n \<le> 2147483647 then Returns (int (intlit_value n), True)
          else Returns (0, False)))"

definition IntLit_GetInt64 :: "IntLit \<Rightarrow> (int \<times> bool) outcome" where
  "IntLit_GetInt64 n =
     (case index (intlit_raw n) 0 of
        Panics \<Rightarrow> Panics
      | Returns c \<Rightarrow>
         (if c = CHR ''-'' \<or> intlit_value n \<le> 9223372036854775807
          then Returns (int64 (intlit_value n), True)
          else Returns (0, False)))"

definition TextLit_GetAsciz :: "TextLit \<Rightarrow> bytes \<times> bool" where
  "TextLit_GetAsciz n = (if \<not> validAsciz n then ([], False) else (textlit_value n, True))"

definition TextLit_GetText :: "TextLit \<Rightarrow> bytes \<times> bool" where
  "TextLit_GetText n = (if \<not> validText n then ([], False) else (textlit_value n, True))"

section \<open>Package compiler: compiling a value\<close>

definition maxFloat32 :: nat where
  "maxFloat32 = push_bit 23 2"

definition maxFloat64 :: nat where
  "maxFloat64 = push_bit 52 2"

definition isEnum :: "'p typeInfo \<Rightarrow> bool" where
  "isEnum t =
     (if typeName t = [] then False
      else typeInfo_type t \<in> {Type_U8, Type_I8, Type_U16, Type_I16, Type_U32, Type_I32,
                               Type_U64, Type_I64})"

definition canCompileValue :: "'p typeInfo \<Rightarrow> bool" where
  "canCompileValue t =
     (typeInfo_type t \<in> {Type_BOOL, Type_U8, Type_I8, Type_U16, Type_I16, Type_U32, Type_I32,
                          Type_U64, Type_I64, Type_F32, Type_F64, Type_ASCIZ, Type_TEXT})"

text \<open>The destination of a value, as \<open>errValueTypeMismatch\<close> tells them apart.\<close>

datatype Destination = Dst_Const | Dst_Option | Dst_OptionsOption | Dst_other

text \<open>\<open>errValueTypeMismatch\<close> panics on a destination that is no constant or option,
  and on a type without name that is not a builtin value type.\<close>

definition errValueTypeMismatch :: "Destination \<Rightarrow> 'p typeInfo \<Rightarrow> Node \<Rightarrow> Error outcome" where
  "errValueTypeMismatch dst valueType valueNode =
     (if dst = Dst_other then Panics
      else if typeName valueType = [] \<and> \<not> canCompileValue valueType then Panics
      else Returns \<lparr>code = 3015, span = Node_Span valueNode\<rparr>)"

text \<open>\<open>errValueOutOfRange2\<close> panics on a type that is neither integer nor float.\<close>

definition errValueOutOfRange2 :: "Type \<Rightarrow> Span \<Rightarrow> Error outcome" where
  "errValueOutOfRange2 t valueSpan =
     (if t \<in> {Type_U8, Type_I8, Type_U16, Type_I16, Type_U32, Type_I32, Type_U64, Type_I64,
               Type_F32, Type_F64}
      then Returns \<lparr>code = 3016, span = valueSpan\<rparr>
      else Panics)"

definition errValueOutOfRange :: "Type \<Rightarrow> IntLit \<Rightarrow> Error outcome" where
  "errValueOutOfRange t node =
     (case IntLit_GetInt64 node of
        Panics \<Rightarrow> Panics
      | Returns (v, True) \<Rightarrow> errValueOutOfRange2 t (IntLit_Span node)
      | Returns (v, False) \<Rightarrow>
         (case IntLit_GetUint64 node of
            Panics \<Rightarrow> Panics
          | Returns u \<Rightarrow> errValueOutOfRange2 t (IntLit_Span node)))"

definition errInvalidBoolValue :: "EnumRef \<Rightarrow> Error" where
  "errInvalidBoolValue node = \<lparr>code = 3017, span = enumref_span node\<rparr>"

definition errInvalidAscizValue :: "TextLit \<Rightarrow> Error" where
  "errInvalidAscizValue node = \<lparr>code = 3018, span = TextLit_Span node\<rparr>"

definition errInvalidTextValue :: "TextLit \<Rightarrow> Error" where
  "errInvalidTextValue node = \<lparr>code = 3019, span = TextLit_Span node\<rparr>"

text \<open>
  Go's \<open>math.Float32bits(float32(i))\<close> and \<open>math.Float64bits(float64(i))\<close> for an integer
  \<open>i\<close> that the float type represents exactly, as every integer of magnitude up to
  \<open>2 ^ 24\<close> (up to \<open>2 ^ 53\<close>) is: the sign bit, the biased exponent of the leading bit,
  and the bits below the leading bit at the top of the fraction. The compiler converts
  no other integer. \<open>bitlen\<close> is the number of binary digits.
\<close>

fun bitlen :: "nat \<Rightarrow> nat" where
  "bitlen n = (if n = 0 then 0 else Suc (bitlen (n div 2)))"

declare bitlen.simps [simp del]

definition Float32bits_of_int :: "int \<Rightarrow> nat" where
  "Float32bits_of_int i =
     (if i = 0 then 0
      else let a = nat \<bar>i\<bar>; e = bitlen a - 1
           in (if i < 0 then 2 ^ 31 else 0) + (127 + e) * 2 ^ 23 + (a - 2 ^ e) * 2 ^ (23 - e))"

definition Float64bits_of_int :: "int \<Rightarrow> nat" where
  "Float64bits_of_int i =
     (if i = 0 then 0
      else let a = nat \<bar>i\<bar>; e = bitlen a - 1
           in (if i < 0 then 2 ^ 63 else 0) + (1023 + e) * 2 ^ 52 + (a - 2 ^ e) * 2 ^ (52 - e))"

text \<open>The conversions \<open>uint8(v)\<close> ... \<open>uint64(v)\<close> of a signed value.\<close>

definition uint_of :: "nat \<Rightarrow> int \<Rightarrow> nat" where
  "uint_of w v = nat (v mod 2 ^ w)"

text \<open>
  \<open>compileValue(dst, valueType, valueNode)\<close>. The two callees that read the compiler's
  tables, \<open>compileNamedValue\<close> for a named constant and \<open>compileEnumRefValue\<close> for an
  item of an enum type, are the parameters \<open>named\<close> and \<open>enumRef\<close>. The cases of the
  eight integer types have one shape, written once as \<open>compileInt\<close> with the accessor of
  the literal and the encoding of its value as argument; the two float cases are
  \<open>compileFloat\<close>, with the bound and the bit pattern as arguments.
\<close>

definition compileInt :: "Destination \<Rightarrow> 'p typeInfo \<Rightarrow> Node
    \<Rightarrow> (IntLit \<Rightarrow> (bytes \<times> bool) outcome) \<Rightarrow> (Error + bytes) outcome" where
  "compileInt dst valueType valueNode get =
     (case valueNode of
        Node_IntLit intLit \<Rightarrow>
          (case get intLit of
             Panics \<Rightarrow> Panics
           | Returns (v, True) \<Rightarrow> Returns (Inr v)
           | Returns (v, False) \<Rightarrow>
              (case errValueOutOfRange (typeInfo_type valueType) intLit of
                 Panics \<Rightarrow> Panics
               | Returns e \<Rightarrow> Returns (Inl e)))
      | _ \<Rightarrow>
          (case errValueTypeMismatch dst valueType valueNode of
             Panics \<Rightarrow> Panics
           | Returns e \<Rightarrow> Returns (Inl e)))"

definition enc_unsigned :: "(nat \<Rightarrow> bytes) \<Rightarrow> (nat \<times> bool) outcome \<Rightarrow> (bytes \<times> bool) outcome" where
  "enc_unsigned put r =
     (case r of Panics \<Rightarrow> Panics | Returns (v, ok) \<Rightarrow> Returns (put v, ok))"

definition enc_signed :: "nat \<Rightarrow> (nat \<Rightarrow> bytes) \<Rightarrow> (int \<times> bool) outcome \<Rightarrow> (bytes \<times> bool) outcome" where
  "enc_signed w put r =
     (case r of Panics \<Rightarrow> Panics | Returns (v, ok) \<Rightarrow> Returns (put (uint_of w v), ok))"

definition compileFloat :: "Destination \<Rightarrow> 'p typeInfo \<Rightarrow> Node \<Rightarrow> nat \<Rightarrow> (int \<Rightarrow> bytes)
    \<Rightarrow> (Error + bytes) outcome" where
  "compileFloat dst valueType valueNode maxFloat bits =
     (case valueNode of
        Node_IntLit intLit \<Rightarrow>
          (case IntLit_GetInt64 intLit of
             Panics \<Rightarrow> Panics
           | Returns (i64, True) \<Rightarrow>
              (if i64 > int maxFloat \<or> i64 < - int maxFloat
               then (case errValueOutOfRange (typeInfo_type valueType) intLit of
                       Panics \<Rightarrow> Panics
                     | Returns e \<Rightarrow> Returns (Inl e))
               else Returns (Inr (bits i64)))
           | Returns (i64, False) \<Rightarrow>
              (case IntLit_GetUint64 intLit of
                 Panics \<Rightarrow> Panics
               | Returns (u64, ok) \<Rightarrow>
                  (if u64 > maxFloat
                   then (case errValueOutOfRange (typeInfo_type valueType) intLit of
                           Panics \<Rightarrow> Panics
                         | Returns e \<Rightarrow> Returns (Inl e))
                   else Returns (Inr (bits (int u64))))))
      | _ \<Rightarrow>
          (case errValueTypeMismatch dst valueType valueNode of
             Panics \<Rightarrow> Panics
           | Returns e \<Rightarrow> Returns (Inl e)))"

definition compileValue ::
  "(ValueName \<Rightarrow> (Error + bytes) outcome) \<Rightarrow> (EnumRef \<Rightarrow> (Error + bytes) outcome)
    \<Rightarrow> Destination \<Rightarrow> 'p typeInfo \<Rightarrow> Node \<Rightarrow> (Error + bytes) outcome" where
  "compileValue named enumRef dst valueType valueNode =
     (case valueNode of
        Node_ValueName vn \<Rightarrow> named vn
      | _ \<Rightarrow>
       if isEnum valueType then
         (case valueNode of
            Node_EnumRef er \<Rightarrow> enumRef er
          | _ \<Rightarrow> (case errValueTypeMismatch dst valueType valueNode of
                     Panics \<Rightarrow> Panics
                   | Returns e \<Rightarrow> Returns (Inl e)))
       else case typeInfo_type valueType of
         Type_BOOL \<Rightarrow>
           (case valueNode of
              Node_EnumRef er \<Rightarrow>
                (if ident_raw (enumref_name er) = ''true'' then Returns (Inr [1])
                 else if ident_raw (enumref_name er) = ''false'' then Returns (Inr [0])
                 else Returns (Inl (errInvalidBoolValue er)))
            | _ \<Rightarrow> (case errValueTypeMismatch dst valueType valueNode of
                       Panics \<Rightarrow> Panics
                     | Returns e \<Rightarrow> Returns (Inl e)))
       | Type_U8 \<Rightarrow>
           compileInt dst valueType valueNode (\<lambda>l. enc_unsigned (\<lambda>v. [word_of_nat v]) (IntLit_GetUint8 l))
       | Type_I8 \<Rightarrow>
           compileInt dst valueType valueNode (\<lambda>l. enc_signed 8 (\<lambda>v. [word_of_nat v]) (IntLit_GetInt8 l))
       | Type_U16 \<Rightarrow>
           compileInt dst valueType valueNode (\<lambda>l. enc_unsigned putUint16 (IntLit_GetUint16 l))
       | Type_I16 \<Rightarrow>
           compileInt dst valueType valueNode (\<lambda>l. enc_signed 16 putUint16 (IntLit_GetInt16 l))
       | Type_U32 \<Rightarrow>
           compileInt dst valueType valueNode (\<lambda>l. enc_unsigned putUint32 (IntLit_GetUint32 l))
       | Type_I32 \<Rightarrow>
           compileInt dst valueType valueNode (\<lambda>l. enc_signed 32 putUint32 (IntLit_GetInt32 l))
       | Type_U64 \<Rightarrow>
           compileInt dst valueType valueNode (\<lambda>l. enc_unsigned putUint64 (IntLit_GetUint64 l))
       | Type_I64 \<Rightarrow>
           compileInt dst valueType valueNode (\<lambda>l. enc_signed 64 putUint64 (IntLit_GetInt64 l))
       | Type_F32 \<Rightarrow>
           compileFloat dst valueType valueNode maxFloat32 (\<lambda>i. putUint32 (Float32bits_of_int i))
       | Type_F64 \<Rightarrow>
           compileFloat dst valueType valueNode maxFloat64 (\<lambda>i. putUint64 (Float64bits_of_int i))
       | Type_ASCIZ \<Rightarrow>
           (case valueNode of
              Node_TextLit lit \<Rightarrow>
                (case TextLit_GetAsciz lit of
                   (v, True) \<Rightarrow> Returns (Inr (v @ [0]))
                 | (v, False) \<Rightarrow> Returns (Inl (errInvalidAscizValue lit)))
            | _ \<Rightarrow> (case errValueTypeMismatch dst valueType valueNode of
                       Panics \<Rightarrow> Panics
                     | Returns e \<Rightarrow> Returns (Inl e)))
       | Type_TEXT \<Rightarrow>
           (case valueNode of
              Node_TextLit lit \<Rightarrow>
                (case TextLit_GetText lit of
                   (v, True) \<Rightarrow> Returns (Inr v)
                 | (v, False) \<Rightarrow> Returns (Inl (errInvalidTextValue lit)))
            | _ \<Rightarrow> (case errValueTypeMismatch dst valueType valueNode of
                       Panics \<Rightarrow> Panics
                     | Returns e \<Rightarrow> Returns (Inl e)))
       | _ \<Rightarrow> Panics)"
subsection \<open>Integer literals against integer and float types\<close>

text \<open>The integer a literal denotes, the range of an integer type, and the little-endian
  two's complement encoding in the width of the type.\<close>

definition lit_int :: "IntLit \<Rightarrow> int" where
  "lit_int n = (if take 1 (intlit_raw n) = ''-'' then int64 (intlit_value n)
                else int (intlit_value n))"

fun type_range :: "Type \<Rightarrow> (int \<times> int) option" where
  "type_range Type_U8 = Some (0, 255)"
| "type_range Type_I8 = Some (-128, 127)"
| "type_range Type_U16 = Some (0, 65535)"
| "type_range Type_I16 = Some (-32768, 32767)"
| "type_range Type_U32 = Some (0, 4294967295)"
| "type_range Type_I32 = Some (-2147483648, 2147483647)"
| "type_range Type_U64 = Some (0, 18446744073709551615)"
| "type_range Type_I64 = Some (-9223372036854775808, 9223372036854775807)"
| "type_range _ = None"

definition in_range :: "Type \<Rightarrow> int \<Rightarrow> bool" where
  "in_range t v = (case type_range t of None \<Rightarrow> False | Some (lo, hi) \<Rightarrow> lo \<le> v \<and> v \<le> hi)"

fun le_encoding :: "Type \<Rightarrow> int \<Rightarrow> bytes" where
  "le_encoding Type_U8 v = [word_of_nat (uint_of 8 v)]"
| "le_encoding Type_I8 v = [word_of_nat (uint_of 8 v)]"
| "le_encoding Type_U16 v = putUint16 (uint_of 16 v)"
| "le_encoding Type_I16 v = putUint16 (uint_of 16 v)"
| "le_encoding Type_U32 v = putUint32 (uint_of 32 v)"
| "le_encoding Type_I32 v = putUint32 (uint_of 32 v)"
| "le_encoding Type_U64 v = putUint64 (uint_of 64 v)"
| "le_encoding Type_I64 v = putUint64 (uint_of 64 v)"
| "le_encoding _ v = []"

text \<open>A literal as \<open>newIntLit\<close> builds it: a non-empty text and a 64-bit value.\<close>

definition IntLit_wf :: "IntLit \<Rightarrow> bool" where
  "IntLit_wf n = (intlit_raw n \<noteq> [] \<and> intlit_value n < 2 ^ 64)"

lemma index_raw: "intlit_raw n \<noteq> [] \<Longrightarrow> index (intlit_raw n) 0 = Returns (hd (intlit_raw n))"
  by (cases "intlit_raw n") (simp_all add: index_def)

lemma take1_hd: "r \<noteq> [] \<Longrightarrow> (take 1 r = ''-'') = (hd r = CHR ''-'')"
  by (cases r) simp_all

lemma int64_small: "v < 2 ^ 63 \<Longrightarrow> int64 v = int v"
  by (simp add: int64_def)

lemma int64_big: "2 ^ 63 \<le> v \<Longrightarrow> v < 2 ^ 64 \<Longrightarrow> int64 v = int v - 2 ^ 64"
  by (simp add: int64_def)

lemma int64_bounds: "- (2 ^ 63) \<le> int64 v \<and> int64 v < 2 ^ 63"
proof -
  have "v mod 2 ^ 64 < 2 ^ 64" by simp
  then show ?thesis unfolding int64_def by (auto simp: not_less)
qed
lemmas cv_defs = compileValue_def compileInt_def compileFloat_def enc_unsigned_def enc_signed_def
  isEnum_def errValueOutOfRange_def errValueOutOfRange2_def
  IntLit_GetUint8_def IntLit_GetUint16_def IntLit_GetUint32_def IntLit_GetUint64_def IntLit_GetInt8_def IntLit_GetInt16_def IntLit_GetInt32_def IntLit_GetInt64_def

definition unsigned_type :: "Type \<Rightarrow> bool" where
  "unsigned_type t = (t \<in> {Type_U8, Type_U16, Type_U32, Type_U64})"

lemma uint_of_int: "uint_of w (int v) = v mod 2 ^ w"
  by (simp add: uint_of_def nat_mod_distrib nat_power_eq)

lemma int_range:
  assumes wf: "IntLit_wf n" and tn: "typeName vt = []" and r: "type_range (typeInfo_type vt) = Some (lo, hi)"
  shows "compileValue named enumRef dst vt (Node_IntLit n) =
     (if in_range (typeInfo_type vt) (lit_int n)
         \<and> \<not> (unsigned_type (typeInfo_type vt) \<and> take 1 (intlit_raw n) = ''-'')
      then Returns (Inr (le_encoding (typeInfo_type vt) (lit_int n)))
      else Returns (Inl \<lparr>code = 3016, span = IntLit_Span n\<rparr>))"
proof -
  have i: "index (intlit_raw n) 0 = Returns (hd (intlit_raw n))" using wf by (simp add: IntLit_wf_def index_raw)
  have t: "(take 1 (intlit_raw n) = ''-'') = (hd (intlit_raw n) = CHR ''-'')" using wf take1_hd [of "intlit_raw n"] by (simp add: IntLit_wf_def)
  have b: "intlit_value n < 2 ^ 64" using wf by (simp add: IntLit_wf_def)
  show ?thesis
  proof (cases "hd (intlit_raw n) = CHR ''-''")
    case True
    then show ?thesis using r tn i t b int64_bounds [of "intlit_value n"]
      by (cases "typeInfo_type vt") (auto simp: cv_defs in_range_def lit_int_def unsigned_type_def int64_small split: if_splits)
  next
    case False
    then show ?thesis using r tn i t b
      by (cases "typeInfo_type vt") (auto simp: cv_defs in_range_def lit_int_def unsigned_type_def uint_of_int int64_small split: if_splits)
  qed
qed

lemma float32_range:
  assumes wf: "IntLit_wf n" and ty: "typeInfo_type vt = Type_F32"
  shows "compileValue named enumRef dst vt (Node_IntLit n) =
     (if \<bar>lit_int n\<bar> \<le> 2 ^ 24
      then Returns (Inr (putUint32 (Float32bits_of_int (lit_int n))))
      else Returns (Inl \<lparr>code = 3016, span = IntLit_Span n\<rparr>))"
proof -
  have i: "index (intlit_raw n) 0 = Returns (hd (intlit_raw n))" using wf by (simp add: IntLit_wf_def index_raw)
  have t: "(take 1 (intlit_raw n) = ''-'') = (hd (intlit_raw n) = CHR ''-'')" using wf take1_hd [of "intlit_raw n"] by (simp add: IntLit_wf_def)
  have b: "intlit_value n < 2 ^ 64" using wf by (simp add: IntLit_wf_def)
  show ?thesis
  proof (cases "hd (intlit_raw n) = CHR ''-''")
    case True
    then show ?thesis using i t b ty
      by (auto simp: cv_defs lit_int_def maxFloat32_def split: if_splits)
  next
    case False
    then show ?thesis using i t b ty
      by (auto simp: cv_defs lit_int_def maxFloat32_def int64_small split: if_splits)
  qed
qed

lemma float64_range:
  assumes wf: "IntLit_wf n" and ty: "typeInfo_type vt = Type_F64"
  shows "compileValue named enumRef dst vt (Node_IntLit n) =
     (if \<bar>lit_int n\<bar> \<le> 2 ^ 53
      then Returns (Inr (putUint64 (Float64bits_of_int (lit_int n))))
      else Returns (Inl \<lparr>code = 3016, span = IntLit_Span n\<rparr>))"
proof -
  have i: "index (intlit_raw n) 0 = Returns (hd (intlit_raw n))" using wf by (simp add: IntLit_wf_def index_raw)
  have t: "(take 1 (intlit_raw n) = ''-'') = (hd (intlit_raw n) = CHR ''-'')" using wf take1_hd [of "intlit_raw n"] by (simp add: IntLit_wf_def)
  have b: "intlit_value n < 2 ^ 64" using wf by (simp add: IntLit_wf_def)
  show ?thesis
  proof (cases "hd (intlit_raw n) = CHR ''-''")
    case True
    then show ?thesis using i t b ty
      by (auto simp: cv_defs lit_int_def maxFloat64_def split: if_splits)
  next
    case False
    then show ?thesis using i t b ty
      by (auto simp: cv_defs lit_int_def maxFloat64_def int64_small split: if_splits)
  qed
qed

lemma bitlen_numeral:
  "bitlen 0 = 0" "bitlen (Suc 0) = Suc 0"
  "bitlen (numeral Num.One) = Suc 0"
  "bitlen (numeral (Num.Bit0 k)) = Suc (bitlen (numeral k))"
  "bitlen (numeral (Num.Bit1 k)) = Suc (bitlen (numeral k))"
proof -
  show "bitlen 0 = 0" by (subst bitlen.simps) simp
  then show "bitlen (Suc 0) = Suc 0" by (subst bitlen.simps) simp
  then show "bitlen (numeral Num.One) = Suc 0" by simp
  show "bitlen (numeral (Num.Bit0 k)) = Suc (bitlen (numeral k))"
    by (subst bitlen.simps) simp
  show "bitlen (numeral (Num.Bit1 k)) = Suc (bitlen (numeral k))"
    by (subst bitlen.simps) simp
qed

text \<open>The bit patterns of some integers, as IEEE 754 gives them: \<open>1\<close>, \<open>-2\<close>, \<open>3\<close> and
  \<open>2 ^ 24\<close> in single precision, \<open>1\<close> and \<open>-(2 ^ 53)\<close> in double precision.\<close>

lemma Float32bits_of_int_values:
  "Float32bits_of_int 1 = 0x3F800000" "Float32bits_of_int (- 2) = 0xC0000000"
  "Float32bits_of_int 3 = 0x40400000" "Float32bits_of_int 16777216 = 0x4B800000"
  by (simp_all add: Float32bits_of_int_def bitlen_numeral Let_def)

lemma Float64bits_of_int_values:
  "Float64bits_of_int 1 = 0x3FF0000000000000"
  "Float64bits_of_int (- 9007199254740992) = 0xC340000000000000"
  by (simp_all add: Float64bits_of_int_def bitlen_numeral Let_def)
section \<open>Package compiler: compiling the constants of a schema\<close>

text \<open>
  The compiler run over a parsed schema whose top-level nodes are the namespace and
  constants without decorators. For such a schema the loops over the imports, exports, options,
  enums, structs, messages, unions and protocols of \<open>c.nodes\<close> run over empty lists, the
  tables \<open>importedNames\<close> and \<open>importsByAlias\<close> stay empty, \<open>compileConstOptions\<close>
  returns \<open>nil\<close> and reports nothing, and every entry of \<open>declsByName\<close> is a constant.
\<close>

record TypeName =
  typename_span :: Span
  typename_scope :: "Ident option"
  typename_name :: Ident

record Const =
  const_span :: Span
  const_name :: Ident
  const_typeName :: TypeName
  const_value :: Node

record schemaNodes =
  nodes_namespace :: TextLit
  nodes_consts :: "Const list"

record Warning =
  wcode :: nat
  wspan :: Span

definition warnDeclShadowsBuiltin :: "Span \<Rightarrow> Warning" where
  "warnDeclShadowsBuiltin sp = \<lparr>wcode = 4009, wspan = sp\<rparr>"

definition errInvalidNamespace :: "Span \<Rightarrow> Error" where
  "errInvalidNamespace sp = \<lparr>code = 3000, span = sp\<rparr>"

definition errImportAsNotFound :: "Span \<Rightarrow> Error" where
  "errImportAsNotFound sp = \<lparr>code = 3003, span = sp\<rparr>"

definition errDeclNameConflict :: "Const \<Rightarrow> Error" where
  "errDeclNameConflict decl = \<lparr>code = 3012, span = Ident_Span (const_name decl)\<rparr>"

definition errConstTypeInvalid :: "TypeName \<Rightarrow> Error" where
  "errConstTypeInvalid name = \<lparr>code = 3020, span = typename_span name\<rparr>"

definition errResolvedDeclNotType :: Error where
  "errResolvedDeclNotType = \<lparr>code = 0x30000, span = \<lparr>start = 0, len = 0\<rparr>\<rparr>"

definition errTypeNameNotFound :: Error where
  "errTypeNameNotFound = \<lparr>code = 0x30000, span = \<lparr>start = 0, len = 0\<rparr>\<rparr>"

definition builtinTypes :: "string \<rightharpoonup> Type" where
  "builtinTypes = map_of
     [(''bool'', Type_BOOL), (''u8'', Type_U8), (''i8'', Type_I8), (''u16'', Type_U16),
      (''i16'', Type_I16), (''u32'', Type_U32), (''i32'', Type_I32), (''u64'', Type_U64),
      (''i64'', Type_I64), (''f32'', Type_F32), (''f64'', Type_F64), (''text'', Type_TEXT),
      (''asciz'', Type_ASCIZ), (''handle'', Type_HANDLE)]"

text \<open>The builders of the compiled schema, with the fields that the constants set.\<close>

record Const_Builder =
  cb_Name :: string
  cb_Type :: "Type option"
  cb_TypeName :: "string option"
  cb_Value :: "bytes option"

record Schema_Builder =
  sb_SourcePath :: "string list"
  sb_Namespace :: bytes
  sb_Consts :: "Const_Builder list"

text \<open>A \<open>declInfo\<close> is shared by \<open>c.decls\<close> and \<open>c.declsByName\<close>: the table maps a name to
  the position of its \<open>declInfo\<close> in \<open>c.decls\<close>.\<close>

record 'p declInfo =
  decl_node :: Const
  constType :: "'p typeInfo option"
  constValue :: "bytes option"

record 'p compiler =
  schema :: Schema_Builder
  errors :: "Error list"
  warnings :: "Warning list"
  decls :: "'p declInfo list"
  declsByName :: "string \<rightharpoonup> nat"

definition compiler_err :: "Error \<Rightarrow> 'p compiler \<Rightarrow> 'p compiler" where
  "compiler_err e c = c\<lparr>errors := errors c @ [e]\<rparr>"

definition compiler_warn :: "Warning \<Rightarrow> 'p compiler \<Rightarrow> 'p compiler" where
  "compiler_warn w c = c\<lparr>warnings := warnings c @ [w]\<rparr>"

text \<open>\<open>checkNamespace\<close> ranges over the runes of the text. A byte below \<open>0x80\<close> is a rune
  of its own and every other rune is \<open>0x80\<close> or more, so the test is made on the bytes.\<close>

definition checkNamespace :: "TextLit \<Rightarrow> bytes \<times> Error option" where
  "checkNamespace node =
     (case TextLit_GetText node of
        (namespace, ok) \<Rightarrow>
          if \<not> ok \<or> namespace = [] then (namespace, Some (errInvalidNamespace (TextLit_Span node)))
          else if list_all (\<lambda>b. (0x20 \<le> b \<and> b \<le> 0x7E) \<or> 0x80 \<le> b \<or> b = 0x09) namespace
          then (namespace, None)
          else (namespace, Some (errInvalidNamespace (TextLit_Span node))))"

definition compiler_resolveType :: "'p compiler \<Rightarrow> TypeName \<Rightarrow> Error + 'p typeInfo" where
  "compiler_resolveType c node =
     (let name = ident_raw (typename_name node)
      in case typename_scope node of
           Some scope \<Rightarrow> Inl (errImportAsNotFound (Ident_Span scope))
         | None \<Rightarrow>
            (case declsByName c name of
               Some d \<Rightarrow> Inl errResolvedDeclNotType
             | None \<Rightarrow>
                (case builtinTypes name of
                   Some t \<Rightarrow> Inr \<lparr>typeInfo_type = t, typeName = [], imported = None\<rparr>
                 | None \<Rightarrow> Inl errTypeNameNotFound)))"

text \<open>\<open>registerDecl\<close> returns the new \<open>declInfo\<close>, here its position in \<open>c.decls\<close>.\<close>

definition registerDecl :: "'p compiler \<Rightarrow> Const \<Rightarrow> 'p compiler \<times> nat" where
  "registerDecl c node =
     (let declInfo = \<lparr>decl_node = node, constType = None, constValue = None\<rparr>;
          name = ident_raw (const_name node);
          pos = length (decls c);
          c1 = (case declsByName c name of
                  Some prevDecl \<Rightarrow> compiler_err (errDeclNameConflict node) c
                | None \<Rightarrow> c\<lparr>declsByName := (declsByName c)(name \<mapsto> pos)\<rparr>);
          c2 = (if builtinTypes name \<noteq> None
                then compiler_warn (warnDeclShadowsBuiltin (Ident_Span (const_name node))) c1
                else c1)
      in (c2\<lparr>decls := decls c2 @ [declInfo]\<rparr>, pos))"

definition registerConstType :: "'p compiler \<Rightarrow> Const \<Rightarrow> nat \<Rightarrow> 'p compiler" where
  "registerConstType c node pos =
     (case compiler_resolveType c (const_typeName node) of
        Inl e \<Rightarrow> compiler_err e c
      | Inr t \<Rightarrow> c\<lparr>decls := (decls c)[pos := (decls c ! pos)\<lparr>constType := Some t\<rparr>]\<rparr>)"

definition registerDecls :: "'p compiler \<Rightarrow> schemaNodes \<Rightarrow> 'p compiler" where
  "registerDecls c nodes =
     foldl (\<lambda>c node. case registerDecl c node of (c', pos) \<Rightarrow> registerConstType c' node pos)
       (c\<lparr>declsByName := Map.empty\<rparr>) (nodes_consts nodes)"

text \<open>
  \<open>compileConst\<close> for the \<open>declInfo\<close> at a position of \<open>c.decls\<close>. The callees of
  \<open>compileValue\<close> that read the compiler's tables are parameters, here given the compiler.
\<close>

definition compileConst ::
  "('p compiler \<Rightarrow> ValueName \<Rightarrow> (Error + bytes) outcome)
    \<Rightarrow> ('p compiler \<Rightarrow> EnumRef \<Rightarrow> (Error + bytes) outcome)
    \<Rightarrow> 'p compiler \<Rightarrow> nat \<Rightarrow> bool \<Rightarrow> ('p compiler \<times> Const_Builder option) outcome" where
  "compileConst named enumRef c pos compilingEnumConsts =
     (let declInfo = decls c ! pos;
          node = decl_node declInfo;
          b = \<lparr>cb_Name = ident_raw (const_name node), cb_Type = None, cb_TypeName = None,
               cb_Value = None\<rparr>
      in case constType declInfo of
           None \<Rightarrow> Returns (c, if compilingEnumConsts then None else Some b)
         | Some typeInfo \<Rightarrow>
            if compilingEnumConsts \<noteq> isEnum typeInfo then Returns (c, None)
            else
              let b = b\<lparr>cb_Type := Some (typeInfo_type typeInfo),
                         cb_TypeName := Some (typeName typeInfo)\<rparr>
              in if \<not> canCompileValue typeInfo
                 then Returns (compiler_err (errConstTypeInvalid (const_typeName node)) c, Some b)
                 else
                   (case compileValue (named c) (enumRef c) Dst_Const typeInfo (const_value node) of
                      Panics \<Rightarrow> Panics
                    | Returns (Inr v) \<Rightarrow>
                        Returns (c\<lparr>decls := (decls c)[pos := declInfo\<lparr>constValue := Some v\<rparr>]\<rparr>,
                                 Some (b\<lparr>cb_Value := Some v\<rparr>))
                    | Returns (Inl e) \<Rightarrow> Returns (compiler_err e c, Some b)))"

text \<open>One loop of \<open>compileDecls\<close> over the constants of \<open>c.decls\<close>, from a position on.\<close>

fun compileDecls_loop ::
  "('p compiler \<Rightarrow> ValueName \<Rightarrow> (Error + bytes) outcome)
    \<Rightarrow> ('p compiler \<Rightarrow> EnumRef \<Rightarrow> (Error + bytes) outcome)
    \<Rightarrow> bool \<Rightarrow> nat list \<Rightarrow> 'p compiler \<Rightarrow> 'p compiler outcome" where
  "compileDecls_loop named enumRef compilingEnumConsts [] c = Returns c"
| "compileDecls_loop named enumRef compilingEnumConsts (pos # rest) c =
     (case compileConst named enumRef c pos compilingEnumConsts of
        Panics \<Rightarrow> Panics
      | Returns (c', None) \<Rightarrow> compileDecls_loop named enumRef compilingEnumConsts rest c'
      | Returns (c', Some b) \<Rightarrow>
          compileDecls_loop named enumRef compilingEnumConsts rest
            (c'\<lparr>schema := (schema c')\<lparr>sb_Consts := sb_Consts (schema c') @ [b]\<rparr>\<rparr>))"

definition compileDecls ::
  "('p compiler \<Rightarrow> ValueName \<Rightarrow> (Error + bytes) outcome)
    \<Rightarrow> ('p compiler \<Rightarrow> EnumRef \<Rightarrow> (Error + bytes) outcome)
    \<Rightarrow> 'p compiler \<Rightarrow> 'p compiler outcome" where
  "compileDecls named enumRef c =
     (case compileDecls_loop named enumRef False [0 ..< length (decls c)] c of
        Panics \<Rightarrow> Panics
      | Returns c' \<Rightarrow> compileDecls_loop named enumRef True [0 ..< length (decls c')] c')"

definition compileSchema ::
  "('p compiler \<Rightarrow> ValueName \<Rightarrow> (Error + bytes) outcome)
    \<Rightarrow> ('p compiler \<Rightarrow> EnumRef \<Rightarrow> (Error + bytes) outcome)
    \<Rightarrow> schemaNodes \<Rightarrow> 'p compiler \<Rightarrow> 'p compiler outcome" where
  "compileSchema named enumRef nodes c =
     (case checkNamespace (nodes_namespace nodes) of
        (namespace, e) \<Rightarrow>
          let c1 = (case e of Some e' \<Rightarrow> compiler_err e' c | None \<Rightarrow> c);
              c2 = c1\<lparr>schema := (schema c1)\<lparr>sb_Namespace := namespace\<rparr>\<rparr>
          in compileDecls named enumRef (registerDecls c2 nodes))"

record CompileResult =
  result_schema :: "Schema_Builder option"
  Errors :: "Error list"
  Warnings :: "Warning list"

definition Compile ::
  "('p compiler \<Rightarrow> ValueName \<Rightarrow> (Error + bytes) outcome)
    \<Rightarrow> ('p compiler \<Rightarrow> EnumRef \<Rightarrow> (Error + bytes) outcome)
    \<Rightarrow> string list \<Rightarrow> schemaNodes \<Rightarrow> CompileResult outcome" where
  "Compile named enumRef sourcePath nodes =
     (let c = \<lparr>schema = \<lparr>sb_SourcePath = sourcePath, sb_Namespace = [], sb_Consts = []\<rparr>,
               errors = [], warnings = [], decls = [], declsByName = Map.empty\<rparr>
      in case compileSchema named enumRef nodes c of
           Panics \<Rightarrow> Panics
         | Returns c' \<Rightarrow>
             if length (errors c') > 0
             then Returns \<lparr>result_schema = None, Errors = errors c', Warnings = warnings c'\<rparr>
             else Returns \<lparr>result_schema = Some (schema c'), Errors = [],
                            Warnings = warnings c'\<rparr>)"

text \<open>The parsed schema of a source text of two lines, the namespace \<open>x\<close> in double
  quotes and \<open>const K : u8 = \<close> followed by an integer literal: the namespace text is at
  offset 10, the constant starts at offset 14 and its literal at offset 29.\<close>

definition const_K_nodes :: "string \<Rightarrow> nat \<Rightarrow> schemaNodes" where
  "const_K_nodes raw v =
     \<lparr>nodes_namespace = \<lparr>textlit_raw = [CHR 0x22, CHR ''x'', CHR 0x22], textlit_value = str ''x'',
                           textlit_start = 10, validAsciz = True, validText = True\<rparr>,
      nodes_consts =
        [\<lparr>const_span = \<lparr>start = 14, len = 15 + length raw\<rparr>,
          const_name = \<lparr>ident_raw = ''K'', ident_start = 20\<rparr>,
          const_typeName = \<lparr>typename_span = \<lparr>start = 24, len = 2\<rparr>, typename_scope = None,
                             typename_name = \<lparr>ident_raw = ''u8'', ident_start = 24\<rparr>\<rparr>,
          const_value = Node_IntLit \<lparr>intlit_raw = raw, intlit_value = v, intlit_start = 29\<rparr>\<rparr>]\<rparr>"

lemmas pipe_defs = Compile_def compileSchema_def compileDecls_def compileConst_def registerDecls_def
  registerDecl_def registerConstType_def compiler_resolveType_def checkNamespace_def
  compiler_err_def compiler_warn_def builtinTypes_def TextLit_GetText_def str_def
  errInvalidNamespace_def const_K_nodes_def canCompileValue_def

text \<open>
  C6. An integer literal against an integer type without name is compiled to the
  little-endian encoding of its value when the value is in the range of the type (and the
  literal has no minus sign, for an unsigned type), and is otherwise reported as error 3016
  with the span of the literal. Against \<open>f32\<close> (\<open>f64\<close>) the literal is accepted exactly
  when its absolute value is at most \<open>2 ^ 24\<close> (\<open>2 ^ 53\<close>), and is then encoded as the
  little-endian bit pattern of the float. Compiling \<open>const K : u8 = 257\<close> gives the one
  error 3016 on the three bytes of the literal at offset 29, and no schema.
\<close>

theorem C6_value_range_checks:
  assumes "IntLit_wf n"
  shows "(typeName vt = [] \<longrightarrow> type_range (typeInfo_type vt) \<noteq> None \<longrightarrow>
            compileValue named enumRef dst vt (Node_IntLit n) =
              (if in_range (typeInfo_type vt) (lit_int n)
                  \<and> \<not> (unsigned_type (typeInfo_type vt) \<and> take 1 (intlit_raw n) = ''-'')
               then Returns (Inr (le_encoding (typeInfo_type vt) (lit_int n)))
               else Returns (Inl \<lparr>code = 3016, span = IntLit_Span n\<rparr>)))
       \<and> (typeInfo_type vt = Type_F32 \<longrightarrow>
            compileValue named enumRef dst vt (Node_IntLit n) =
              (if \<bar>lit_int n\<bar> \<le> 2 ^ 24
               then Returns (Inr (putUint32 (Float32bits_of_int (lit_int n))))
               else Returns (Inl \<lparr>code = 3016, span = IntLit_Span n\<rparr>)))
       \<and> (typeInfo_type vt = Type_F64 \<longrightarrow>
            compileValue named enumRef dst vt (Node_IntLit n) =
              (if \<bar>lit_int n\<bar> \<le> 2 ^ 53
               then Returns (Inr (putUint64 (Float64bits_of_int (lit_int n))))
               else Returns (Inl \<lparr>code = 3016, span = IntLit_Span n\<rparr>)))
       \<and> Compile cnamed cenumRef sourcePath (const_K_nodes ''257'' 257) =
            Returns \<lparr>result_schema = None,
                     Errors = [\<lparr>code = 3016, span = \<lparr>start = 29, len = 3\<rparr>\<rparr>],
                     Warnings = []\<rparr>"
proof -
  have A: "typeName vt = [] \<longrightarrow> type_range (typeInfo_type vt) \<noteq> None \<longrightarrow>
            compileValue named enumRef dst vt (Node_IntLit n) =
              (if in_range (typeInfo_type vt) (lit_int n)
                  \<and> \<not> (unsigned_type (typeInfo_type vt) \<and> take 1 (intlit_raw n) = ''-'')
               then Returns (Inr (le_encoding (typeInfo_type vt) (lit_int n)))
               else Returns (Inl \<lparr>code = 3016, span = IntLit_Span n\<rparr>))"
  proof (intro impI)
    assume tn: "typeName vt = []" and "type_range (typeInfo_type vt) \<noteq> None"
    then obtain lo hi where r: "type_range (typeInfo_type vt) = Some (lo, hi)" by fastforce
    show "compileValue named enumRef dst vt (Node_IntLit n) =
              (if in_range (typeInfo_type vt) (lit_int n)
                  \<and> \<not> (unsigned_type (typeInfo_type vt) \<and> take 1 (intlit_raw n) = ''-'')
               then Returns (Inr (le_encoding (typeInfo_type vt) (lit_int n)))
               else Returns (Inl \<lparr>code = 3016, span = IntLit_Span n\<rparr>))"
      by (rule int_range [OF assms tn r])
  qed
  have B: "typeInfo_type vt = Type_F32 \<longrightarrow>
            compileValue named enumRef dst vt (Node_IntLit n) =
              (if \<bar>lit_int n\<bar> \<le> 2 ^ 24
               then Returns (Inr (putUint32 (Float32bits_of_int (lit_int n))))
               else Returns (Inl \<lparr>code = 3016, span = IntLit_Span n\<rparr>))"
    by (rule impI) (rule float32_range [OF assms])
  have C: "typeInfo_type vt = Type_F64 \<longrightarrow>
            compileValue named enumRef dst vt (Node_IntLit n) =
              (if \<bar>lit_int n\<bar> \<le> 2 ^ 53
               then Returns (Inr (putUint64 (Float64bits_of_int (lit_int n))))
               else Returns (Inl \<lparr>code = 3016, span = IntLit_Span n\<rparr>))"
    by (rule impI) (rule float64_range [OF assms])
  have D: "Compile cnamed cenumRef sourcePath (const_K_nodes ''257'' 257) =
            Returns \<lparr>result_schema = None,
                     Errors = [\<lparr>code = 3016, span = \<lparr>start = 29, len = 3\<rparr>\<rparr>],
                     Warnings = []\<rparr>"
    by (simp add: pipe_defs cv_defs upt_rec index_def Let_def IntLit_Span_def)
  show ?thesis by (rule conjI [OF A conjI [OF B conjI [OF C D]]])
qed

definition lit257 :: IntLit where
  "lit257 = \<lparr>intlit_raw = ''257'', intlit_value = 257, intlit_start = 29\<rparr>"

definition lit_2_24 :: IntLit where
  "lit_2_24 = \<lparr>intlit_raw = ''-16777216'', intlit_value = 18446744073692774400, intlit_start = 30\<rparr>"

definition lit_2_53_1 :: IntLit where
  "lit_2_53_1 = \<lparr>intlit_raw = ''9007199254740993'', intlit_value = 9007199254740993, intlit_start = 30\<rparr>"

definition builtin :: "Type \<Rightarrow> unit typeInfo" where
  "builtin t = \<lparr>typeInfo_type = t, typeName = [], imported = None\<rparr>"

theorem C6_value_range_checks_witness:
  "IntLit_wf lit257 \<and> IntLit_wf lit_2_24 \<and> IntLit_wf lit_2_53_1
   \<and> compileValue (\<lambda>v. Panics) (\<lambda>r. Panics) Dst_Const (builtin Type_U8) (Node_IntLit lit257)
       = Returns (Inl \<lparr>code = 3016, span = \<lparr>start = 29, len = 3\<rparr>\<rparr>)
   \<and> compileValue (\<lambda>v. Panics) (\<lambda>r. Panics) Dst_Const (builtin Type_I16) (Node_IntLit lit257)
       = Returns (Inr [1, 1])
   \<and> compileValue (\<lambda>v. Panics) (\<lambda>r. Panics) Dst_Const (builtin Type_F32) (Node_IntLit lit_2_24)
       = Returns (Inr [0, 0, 0x80, 0xCB])
   \<and> compileValue (\<lambda>v. Panics) (\<lambda>r. Panics) Dst_Const (builtin Type_F64) (Node_IntLit lit_2_53_1)
       = Returns (Inl \<lparr>code = 3016, span = \<lparr>start = 30, len = 16\<rparr>\<rparr>)"
proof -
  have w1: "IntLit_wf lit257" by (simp add: IntLit_wf_def lit257_def)
  have w2: "IntLit_wf lit_2_24" by (simp add: IntLit_wf_def lit_2_24_def)
  have w3: "IntLit_wf lit_2_53_1" by (simp add: IntLit_wf_def lit_2_53_1_def)
  have a: "compileValue (\<lambda>v. Panics) (\<lambda>r. Panics) Dst_Const (builtin Type_U8) (Node_IntLit lit257)
       = Returns (Inl \<lparr>code = 3016, span = \<lparr>start = 29, len = 3\<rparr>\<rparr>)"
    using C6_value_range_checks [OF w1, where vt = "builtin Type_U8" and named = "\<lambda>v. Panics"
        and enumRef = "\<lambda>r. Panics" and dst = Dst_Const and cnamed = "\<lambda>c v. Panics"
        and cenumRef = "\<lambda>c r. Panics" and sourcePath = "[]"]
    by (auto simp add: builtin_def in_range_def lit_int_def lit257_def IntLit_Span_def)
  have b: "compileValue (\<lambda>v. Panics) (\<lambda>r. Panics) Dst_Const (builtin Type_I16) (Node_IntLit lit257)
       = Returns (Inr [1, 1])"
    using C6_value_range_checks [OF w1, where vt = "builtin Type_I16" and named = "\<lambda>v. Panics"
        and enumRef = "\<lambda>r. Panics" and dst = Dst_Const and cnamed = "\<lambda>c v. Panics"
        and cenumRef = "\<lambda>c r. Panics" and sourcePath = "[]"]
    by (auto simp add: builtin_def in_range_def lit_int_def lit257_def unsigned_type_def uint_of_def putUint16_def)
  have c: "compileValue (\<lambda>v. Panics) (\<lambda>r. Panics) Dst_Const (builtin Type_F32) (Node_IntLit lit_2_24)
       = Returns (Inr [0, 0, 0x80, 0xCB])"
    using C6_value_range_checks [OF w2, where vt = "builtin Type_F32" and named = "\<lambda>v. Panics"
        and enumRef = "\<lambda>r. Panics" and dst = Dst_Const and cnamed = "\<lambda>c v. Panics"
        and cenumRef = "\<lambda>c r. Panics" and sourcePath = "[]"]
    by (auto simp add: builtin_def lit_int_def lit_2_24_def int64_def Float32bits_of_int_def bitlen_numeral
          Let_def putUint32_def)
  have d: "compileValue (\<lambda>v. Panics) (\<lambda>r. Panics) Dst_Const (builtin Type_F64) (Node_IntLit lit_2_53_1)
       = Returns (Inl \<lparr>code = 3016, span = \<lparr>start = 30, len = 16\<rparr>\<rparr>)"
    using C6_value_range_checks [OF w3, where vt = "builtin Type_F64" and named = "\<lambda>v. Panics"
        and enumRef = "\<lambda>r. Panics" and dst = Dst_Const and cnamed = "\<lambda>c v. Panics"
        and cenumRef = "\<lambda>c r. Panics" and sourcePath = "[]"]
    by (auto simp add: builtin_def lit_int_def lit_2_53_1_def IntLit_Span_def)
  show ?thesis
    by (rule conjI [OF w1 conjI [OF w2 conjI [OF w3 conjI [OF a conjI [OF b conjI [OF c d]]]]]])
qed

section \<open>The result of a compilation\<close>

text \<open>The compiler before \<open>compileSchema\<close> runs, as \<open>Compile\<close> sets it up.\<close>

definition new_compiler :: "string list \<Rightarrow> 'p compiler" where
  "new_compiler sourcePath =
     \<lparr>schema = \<lparr>sb_SourcePath = sourcePath, sb_Namespace = [], sb_Consts = []\<rparr>,
      errors = [], warnings = [], decls = [], declsByName = Map.empty\<rparr>"

text \<open>A value node whose accessors do not fail: an integer literal has a non-empty text.\<close>

definition value_ok :: "Node \<Rightarrow> bool" where
  "value_ok node = (case node of Node_IntLit l \<Rightarrow> intlit_raw l \<noteq> [] | _ \<Rightarrow> True)"

definition nodes_ok :: "schemaNodes \<Rightarrow> bool" where
  "nodes_ok nodes = list_all (\<lambda>node. value_ok (const_value node)) (nodes_consts nodes)"

definition decls_ok :: "'p compiler \<Rightarrow> bool" where
  "decls_ok c = list_all (\<lambda>d. value_ok (const_value (decl_node d))) (decls c)"

lemma compileValue_Returns:
  assumes "\<And>vn. named vn \<noteq> Panics" and "\<And>er. enumRef er \<noteq> Panics"
    and "canCompileValue vt" and "value_ok node"
  shows "compileValue named enumRef Dst_Const vt node \<noteq> Panics"
proof (cases node)
  case (Node_IntLit l)
  then have "index (intlit_raw l) 0 = Returns (hd (intlit_raw l))"
    using assms(4) by (simp add: value_ok_def index_raw)
  then show ?thesis using Node_IntLit assms(3)
    by (cases "typeInfo_type vt")
       (auto simp: cv_defs canCompileValue_def errValueTypeMismatch_def split: if_splits)
next
  case (Node_TextLit l)
  then show ?thesis using assms(3)
    by (cases "typeInfo_type vt")
       (auto simp: cv_defs canCompileValue_def errValueTypeMismatch_def TextLit_GetText_def
          TextLit_GetAsciz_def split: if_splits)
next
  case (Node_EnumRef er)
  then show ?thesis using assms(2,3)
    by (cases "typeInfo_type vt")
       (auto simp: cv_defs canCompileValue_def errValueTypeMismatch_def split: if_splits)
next
  case (Node_ValueName vn)
  then show ?thesis using assms(1) by (simp add: compileValue_def)
next
  case (Node_other sp)
  then show ?thesis using assms(3)
    by (cases "typeInfo_type vt")
       (auto simp: cv_defs canCompileValue_def errValueTypeMismatch_def split: if_splits)
qed

lemma decls_ok_update:
  assumes "decls_ok c" and "decl_node d = decl_node (decls c ! pos)" and "pos < length (decls c)"
  shows "decls_ok (c\<lparr>decls := (decls c)[pos := d]\<rparr>)"
proof -
  have "value_ok (const_value (decl_node d))"
    using assms by (simp add: decls_ok_def list_all_length)
  then show ?thesis using assms(1,3)
    by (auto simp: decls_ok_def list_all_length nth_list_update)
qed

lemma compileConst_Returns:
  assumes "\<And>c vn. named c vn \<noteq> Panics" and "\<And>c er. enumRef c er \<noteq> Panics"
    and "decls_ok c" and "pos < length (decls c)"
  shows "\<exists>c' b. compileConst named enumRef c pos flag = Returns (c', b)
           \<and> decls_ok c' \<and> length (decls c') = length (decls c)"
proof (cases "constType (decls c ! pos)")
  case None
  then show ?thesis using assms(3) by (simp add: compileConst_def Let_def)
next
  case (Some t)
  have ok: "value_ok (const_value (decl_node (decls c ! pos)))"
    using assms(3,4) by (simp add: decls_ok_def list_all_length)
  show ?thesis
  proof (cases "flag \<noteq> isEnum t \<or> \<not> canCompileValue t")
    case True
    then show ?thesis using Some assms(3)
      by (auto simp: compileConst_def Let_def compiler_err_def decls_ok_def)
  next
    case False
    then have cv: "canCompileValue t" and fl: "flag = isEnum t" by auto
    obtain r where r: "compileValue (named c) (enumRef c) Dst_Const t
        (const_value (decl_node (decls c ! pos))) = Returns r"
      using compileValue_Returns [of "named c" "enumRef c" t, OF assms(1) assms(2) cv ok]
      by (cases "compileValue (named c) (enumRef c) Dst_Const t
        (const_value (decl_node (decls c ! pos)))") auto
    show ?thesis
    proof (cases r)
      case (Inl e)
      then show ?thesis using Some cv fl r assms(3)
        by (auto simp: compileConst_def Let_def compiler_err_def decls_ok_def)
    next
      case (Inr v)
      have "decls_ok (c\<lparr>decls := (decls c)[pos := (decls c ! pos)\<lparr>constValue := Some v\<rparr>]\<rparr>)"
        by (rule decls_ok_update [OF assms(3) _ assms(4)]) simp
      then show ?thesis using Some cv fl r Inr
        by (auto simp: compileConst_def Let_def)
    qed
  qed
qed

lemma compileDecls_loop_Returns:
  assumes "\<And>c vn. named c vn \<noteq> Panics" and "\<And>c er. enumRef c er \<noteq> Panics"
  shows "decls_ok c \<Longrightarrow> list_all (\<lambda>pos. pos < length (decls c)) ps \<Longrightarrow>
     \<exists>c'. compileDecls_loop named enumRef flag ps c = Returns c'
           \<and> decls_ok c' \<and> length (decls c') = length (decls c)"
proof (induction ps arbitrary: c)
  case Nil
  then show ?case by simp
next
  case (Cons pos ps)
  then have p: "pos < length (decls c)" by simp
  obtain c1 b where c1: "compileConst named enumRef c pos flag = Returns (c1, b)"
      and ok1: "decls_ok c1" and len1: "length (decls c1) = length (decls c)"
    using compileConst_Returns [of named enumRef c pos flag, OF assms Cons.prems(1) p] by blast
  show ?case
  proof (cases b)
    case None
    have "\<exists>c'. compileDecls_loop named enumRef flag ps c1 = Returns c'
           \<and> decls_ok c' \<and> length (decls c') = length (decls c1)"
      using Cons.IH [of c1] ok1 len1 Cons.prems(2) by simp
    then show ?thesis using c1 None len1 by simp
  next
    case (Some bb)
    let ?c2 = "c1\<lparr>schema := (schema c1)\<lparr>sb_Consts := sb_Consts (schema c1) @ [bb]\<rparr>\<rparr>"
    have "decls_ok ?c2" using ok1 by (simp add: decls_ok_def)
    then have "\<exists>c'. compileDecls_loop named enumRef flag ps ?c2 = Returns c'
           \<and> decls_ok c' \<and> length (decls c') = length (decls ?c2)"
      using Cons.IH [of ?c2] len1 Cons.prems(2) by simp
    then show ?thesis using c1 Some len1 by simp
  qed
qed

lemma upt_positions: "list_all (\<lambda>pos. pos < n) [0 ..< n]"
  by (simp add: list_all_iff)

lemma compileDecls_Returns:
  assumes "\<And>c vn. named c vn \<noteq> Panics" and "\<And>c er. enumRef c er \<noteq> Panics" and "decls_ok c"
  shows "\<exists>c'. compileDecls named enumRef c = Returns c'"
proof -
  obtain c1 where c1: "compileDecls_loop named enumRef False [0 ..< length (decls c)] c = Returns c1"
      and ok1: "decls_ok c1"
    using compileDecls_loop_Returns [of named enumRef c "[0 ..< length (decls c)]" False,
        OF assms(1) assms(2) assms(3) upt_positions] by blast
  obtain c2 where "compileDecls_loop named enumRef True [0 ..< length (decls c1)] c1 = Returns c2"
    using compileDecls_loop_Returns [of named enumRef c1 "[0 ..< length (decls c1)]" True,
        OF assms(1) assms(2) ok1 upt_positions] by blast
  then show ?thesis using c1 by (simp add: compileDecls_def)
qed

lemma registerConstType_ok:
  assumes "decls_ok c" and "pos < length (decls c)"
  shows "decls_ok (registerConstType c node pos)"
proof (cases "compiler_resolveType c (const_typeName node)")
  case (Inl e)
  then show ?thesis using assms(1) by (simp add: registerConstType_def compiler_err_def decls_ok_def)
next
  case (Inr t)
  have "decls_ok (c\<lparr>decls := (decls c)[pos := (decls c ! pos)\<lparr>constType := Some t\<rparr>]\<rparr>)"
    by (rule decls_ok_update [OF assms(1) _ assms(2)]) simp
  then show ?thesis using Inr by (simp add: registerConstType_def)
qed

lemma registerDecl_ok:
  assumes "decls_ok c" and "value_ok (const_value node)"
  shows "decls_ok (fst (registerDecl c node)) \<and> snd (registerDecl c node) < length (decls (fst (registerDecl c node)))"
  using assms
  by (auto simp: registerDecl_def Let_def decls_ok_def compiler_err_def compiler_warn_def
      split: option.splits)

lemma registerDecls_fold_ok:
  "decls_ok c \<Longrightarrow> list_all (\<lambda>node. value_ok (const_value node)) ns \<Longrightarrow>
     decls_ok (foldl (\<lambda>c node. case registerDecl c node of (c', pos) \<Rightarrow> registerConstType c' node pos) c ns)"
proof (induction ns arbitrary: c)
  case Nil
  then show ?case by simp
next
  case (Cons node ns)
  obtain c1 pos where r: "registerDecl c node = (c1, pos)" by (cases "registerDecl c node")
  have "decls_ok c1 \<and> pos < length (decls c1)"
    using registerDecl_ok [of c node] Cons.prems r by simp
  then have "decls_ok (registerConstType c1 node pos)" by (simp add: registerConstType_ok)
  then show ?case using Cons.IH [of "registerConstType c1 node pos"] Cons.prems(2) r by simp
qed

lemma compileSchema_Returns:
  assumes "\<And>c vn. named c vn \<noteq> Panics" and "\<And>c er. enumRef c er \<noteq> Panics"
    and "nodes_ok nodes" and "decls_ok c"
  shows "\<exists>c'. compileSchema named enumRef nodes c = Returns c'"
proof -
  obtain namespace e where ns: "checkNamespace (nodes_namespace nodes) = (namespace, e)"
    by (cases "checkNamespace (nodes_namespace nodes)")
  let ?c1 = "case e of Some e' \<Rightarrow> compiler_err e' c | None \<Rightarrow> c"
  let ?c2 = "?c1\<lparr>schema := (schema ?c1)\<lparr>sb_Namespace := namespace\<rparr>\<rparr>"
  have "decls_ok (?c2\<lparr>declsByName := Map.empty\<rparr>)"
    using assms(4) by (cases e) (simp_all add: decls_ok_def compiler_err_def)
  then have "decls_ok (registerDecls ?c2 nodes)"
    unfolding registerDecls_def using assms(3) by (intro registerDecls_fold_ok) (simp_all add: nodes_ok_def)
  then obtain c' where "compileDecls named enumRef (registerDecls ?c2 nodes) = Returns c'"
    using compileDecls_Returns [of named enumRef "registerDecls ?c2 nodes", OF assms(1) assms(2)]
    by blast
  then show ?thesis using ns by (simp add: compileSchema_def Let_def)
qed

text \<open>The parsed schema of a source text of two lines, the namespace \<open>x\<close> in double
  quotes and \<open>const u16 : u8 = \<close> followed by an integer literal: the name of the constant
  is at offset 20 and its literal at offset 31.\<close>

definition const_u16_nodes :: "string \<Rightarrow> nat \<Rightarrow> schemaNodes" where
  "const_u16_nodes raw v =
     \<lparr>nodes_namespace = \<lparr>textlit_raw = [CHR 0x22, CHR ''x'', CHR 0x22], textlit_value = str ''x'',
                           textlit_start = 10, validAsciz = True, validText = True\<rparr>,
      nodes_consts =
        [\<lparr>const_span = \<lparr>start = 14, len = 17 + length raw\<rparr>,
          const_name = \<lparr>ident_raw = ''u16'', ident_start = 20\<rparr>,
          const_typeName = \<lparr>typename_span = \<lparr>start = 26, len = 2\<rparr>, typename_scope = None,
                             typename_name = \<lparr>ident_raw = ''u8'', ident_start = 26\<rparr>\<rparr>,
          const_value = Node_IntLit \<lparr>intlit_raw = raw, intlit_value = v, intlit_start = 31\<rparr>\<rparr>]\<rparr>"

text \<open>Callees of \<open>compileValue\<close> that report every name as not found.\<close>

definition no_names :: "unit compiler \<Rightarrow> ValueName \<Rightarrow> (Error + bytes) outcome" where
  "no_names c vn = Returns (Inl \<lparr>code = 0x30000, span = \<lparr>start = 0, len = 0\<rparr>\<rparr>)"

definition no_items :: "unit compiler \<Rightarrow> EnumRef \<Rightarrow> (Error + bytes) outcome" where
  "no_items c er = Returns (Inl \<lparr>code = 0x30000, span = \<lparr>start = 0, len = 0\<rparr>\<rparr>)"

text \<open>
  C8. For a schema of a namespace and constants whose value nodes are well formed,
  \<open>Compile\<close> returns a result: \<open>compileSchema\<close> runs to its end whatever it reports, the
  result has the schema exactly when the list of errors is empty, and it has the errors
  and the warnings of the compiler in both cases. Reporting a warning changes neither the
  errors nor the schema.
\<close>

theorem C8_schema_iff_no_errors:
  assumes "\<And>c vn. named c vn \<noteq> Panics" and "\<And>c er. enumRef c er \<noteq> Panics"
    and "nodes_ok nodes"
  shows "\<exists>c r. compileSchema named enumRef nodes (new_compiler sourcePath) = Returns c
           \<and> Compile named enumRef sourcePath nodes = Returns r
           \<and> result_schema r = (if errors c = [] then Some (schema c) else None)
           \<and> Errors r = errors c \<and> Warnings r = warnings c
           \<and> (result_schema r \<noteq> None) = (Errors r = [])
           \<and> errors (compiler_warn w c) = errors c \<and> schema (compiler_warn w c) = schema c
           \<and> warnings (compiler_warn w c) = warnings c @ [w]"
proof -
  have "decls_ok (new_compiler sourcePath :: 'a compiler)"
    by (simp add: decls_ok_def new_compiler_def)
  then obtain c where c: "compileSchema named enumRef nodes (new_compiler sourcePath) = Returns c"
    using compileSchema_Returns [of named enumRef nodes "new_compiler sourcePath",
        OF assms(1) assms(2) assms(3)] by blast
  let ?r = "if length (errors c) > 0
            then \<lparr>result_schema = None, Errors = errors c, Warnings = warnings c\<rparr>
            else \<lparr>result_schema = Some (schema c), Errors = [], Warnings = warnings c\<rparr>"
  have r: "Compile named enumRef sourcePath nodes = Returns ?r"
    using c by (simp add: Compile_def new_compiler_def)
  have "result_schema ?r = (if errors c = [] then Some (schema c) else None)
        \<and> Errors ?r = errors c \<and> Warnings ?r = warnings c
        \<and> (result_schema ?r \<noteq> None) = (Errors ?r = [])
        \<and> errors (compiler_warn w c) = errors c \<and> schema (compiler_warn w c) = schema c
        \<and> warnings (compiler_warn w c) = warnings c @ [w]"
    by (simp add: compiler_warn_def)
  with c r show ?thesis by blast
qed

theorem C8_schema_iff_no_errors_witness:
  "nodes_ok (const_u16_nodes ''1'' 1) \<and> nodes_ok (const_u16_nodes ''257'' 257)
   \<and> (\<exists>r. Compile no_names no_items [] (const_u16_nodes ''1'' 1) = Returns r
          \<and> (result_schema r \<noteq> None) = (Errors r = []))
   \<and> Compile no_names no_items [] (const_u16_nodes ''1'' 1) =
       Returns \<lparr>result_schema =
                  Some \<lparr>sb_SourcePath = [], sb_Namespace = str ''x'',
                        sb_Consts = [\<lparr>cb_Name = ''u16'', cb_Type = Some Type_U8,
                                      cb_TypeName = Some [], cb_Value = Some [1]\<rparr>]\<rparr>,
                Errors = [],
                Warnings = [\<lparr>wcode = 4009, wspan = \<lparr>start = 20, len = 3\<rparr>\<rparr>]\<rparr>
   \<and> Compile no_names no_items [] (const_u16_nodes ''257'' 257) =
       Returns \<lparr>result_schema = None,
                Errors = [\<lparr>code = 3016, span = \<lparr>start = 31, len = 3\<rparr>\<rparr>],
                Warnings = [\<lparr>wcode = 4009, wspan = \<lparr>start = 20, len = 3\<rparr>\<rparr>]\<rparr>"
proof -
  have n1: "nodes_ok (const_u16_nodes ''1'' 1)"
    by (simp add: nodes_ok_def const_u16_nodes_def value_ok_def)
  have n2: "nodes_ok (const_u16_nodes ''257'' 257)"
    by (simp add: nodes_ok_def const_u16_nodes_def value_ok_def)
  have p1: "\<And>c vn. no_names c vn \<noteq> Panics" by (simp add: no_names_def)
  have p2: "\<And>c er. no_items c er \<noteq> Panics" by (simp add: no_items_def)
  have e: "\<exists>r. Compile no_names no_items [] (const_u16_nodes ''1'' 1) = Returns r
          \<and> (result_schema r \<noteq> None) = (Errors r = [])"
    using C8_schema_iff_no_errors [of no_names no_items "const_u16_nodes ''1'' 1" "[]", OF p1 p2 n1]
    by blast
  have v1: "Compile no_names no_items [] (const_u16_nodes ''1'' 1) =
       Returns \<lparr>result_schema =
                  Some \<lparr>sb_SourcePath = [], sb_Namespace = str ''x'',
                        sb_Consts = [\<lparr>cb_Name = ''u16'', cb_Type = Some Type_U8,
                                      cb_TypeName = Some [], cb_Value = Some [1]\<rparr>]\<rparr>,
                Errors = [],
                Warnings = [\<lparr>wcode = 4009, wspan = \<lparr>start = 20, len = 3\<rparr>\<rparr>]\<rparr>"
    by (simp add: pipe_defs cv_defs upt_rec index_def Let_def const_u16_nodes_def
          warnDeclShadowsBuiltin_def Ident_Span_def)
  have v2: "Compile no_names no_items [] (const_u16_nodes ''257'' 257) =
       Returns \<lparr>result_schema = None,
                Errors = [\<lparr>code = 3016, span = \<lparr>start = 31, len = 3\<rparr>\<rparr>],
                Warnings = [\<lparr>wcode = 4009, wspan = \<lparr>start = 20, len = 3\<rparr>\<rparr>]\<rparr>"
    by (simp add: pipe_defs cv_defs upt_rec index_def Let_def const_u16_nodes_def
          warnDeclShadowsBuiltin_def Ident_Span_def IntLit_Span_def)
  show ?thesis by (rule conjI [OF n1 conjI [OF n2 conjI [OF e conjI [OF v1 v2]]]])
qed

end
